theory Spec2Isabelle
  imports
    Main
    "HOL-Library.Word"
    "HOL-Library.Char_ord"
    "HOL-Library.List_Lexorder"
    "HOL-Library.AList"
begin

section \<open>Go values used by ljdump-go\<close>

text \<open>
  Go strings are byte sequences; \<^typ>\<open>string\<close> is a list of 8-bit characters, and
  the order of \<^theory_text>\<open>Char_ord\<close> with the lexicographic order on lists is Go's
  string comparison. \<open>int64\<close> (\<open>CommentId\<close>, \<open>UserId\<close>, item ids) is a 64-bit
  word read through \<^const>\<open>sint\<close>: \<open>+\<close> wraps as in Go.
\<close>

type_synonym int64 = "64 word"
type_synonym CommentId = "64 word"
type_synonym UserId = "64 word"

definition digit_char :: "nat \<Rightarrow> char" where
  "digit_char n = ''0123456789'' ! (n mod 10)"

fun fmt_nat :: "nat \<Rightarrow> string" where
  "fmt_nat n = (if n < 10 then [digit_char n] else fmt_nat (n div 10) @ [digit_char n])"

text \<open>The verb \<open>%d\<close> of \<open>fmt.Sprintf\<close> on a signed integer.\<close>

definition fmt_int :: "int \<Rightarrow> string" where
  "fmt_int i = (if i < 0 then CHR ''-'' # fmt_nat (nat (- i)) else fmt_nat (nat i))"

definition fmt_int64 :: "int64 \<Rightarrow> string" where
  "fmt_int64 w = fmt_int (sint w)"

text \<open>
  A Go map is a list of key/value pairs with distinct keys; the order of the list is the
  order in which \<open>range\<close> happens to visit the entries. A map-typed struct field can be
  \<open>nil\<close> (\<open>None\<close>): reading a nil map gives the zero value, \<open>len\<close> is 0, \<open>range\<close>
  visits nothing, and an assignment \<open>m[k] = v\<close> panics.
\<close>

type_synonym ('k, 'v) gomap = "('k \<times> 'v) list option"

definition map_index :: "('k, 'v) gomap \<Rightarrow> 'k \<Rightarrow> 'v option" where
  "map_index m k = (case m of None \<Rightarrow> None | Some kvs \<Rightarrow> map_of kvs k)"

definition map_range :: "('k, 'v) gomap \<Rightarrow> ('k \<times> 'v) list" where
  "map_range m = (case m of None \<Rightarrow> [] | Some kvs \<Rightarrow> kvs)"

definition map_assign :: "('k, 'v) gomap \<Rightarrow> 'k \<Rightarrow> 'v \<Rightarrow> ('k, 'v) gomap option" where
  "map_assign m k v = (case m of None \<Rightarrow> None | Some kvs \<Rightarrow> Some (Some (AList.update k v kvs)))"

subsection \<open>Reports\<close>

text \<open>\<open>type Report struct { message string; err error; combined []*Report }\<close>; an
  \<open>error\<close> is its message, a \<open>*Report\<close> is a \<open>Report option\<close>.\<close>

datatype Report = Report (message: string) (err: "string option") (combined: "Report list")

definition ReportMsg :: "string \<Rightarrow> Report" where
  "ReportMsg msg = Report msg None []"

definition WrapErr :: "string \<Rightarrow> string \<Rightarrow> Report" where
  "WrapErr e msg = Report msg (Some e) []"

definition CombineReports :: "Report option \<Rightarrow> Report option \<Rightarrow> Report option" where
  "CombineReports r1 r2 =
     (case r1 of None \<Rightarrow> r2
      | Some a \<Rightarrow> (case r2 of None \<Rightarrow> r1 | Some b \<Rightarrow> Some (Report [] None [a, b])))"

definition fuseErr :: "string option \<Rightarrow> string option \<Rightarrow> string option" where
  "fuseErr e e2 =
     (case e of None \<Rightarrow> e2
      | Some a \<Rightarrow> (case e2 of None \<Rightarrow> e | Some b \<Rightarrow> Some (a @ ''; '' @ b)))"

text \<open>What a function returning \<open>*Report\<close> does: it returns (\<open>nil\<close> or a report), or the
  goroutine panics.\<close>

datatype outcome = Returned "Report option" | Panicked string

subsection \<open>The world outside the program\<close>

text \<open>
  The file system is a map from paths to contents, standard error is the list of lines
  written by \<open>log\<close>, and \<open>ticks\<close> counts the calls made to the outside (network, file
  system) so far: what the outside answers may depend on it.
\<close>

record sys =
  ticks :: nat
  files :: "string \<rightharpoonup> string"
  stderr :: "string list"

definition log :: "string \<Rightarrow> sys \<Rightarrow> sys" where
  "log line s = s\<lparr>stderr := stderr s @ [line]\<rparr>"

definition tick :: "sys \<Rightarrow> sys" where
  "tick s = s\<lparr>ticks := Suc (ticks s)\<rparr>"

record commentMeta =
  posterId :: UserId
  state :: string

record LJCommentMeta =
  meta_Id :: CommentId
  meta_PosterId :: UserId
  meta_State :: string

record LJComment =
  com_Id :: CommentId
  com_PosterId :: UserId
  com_State :: string
  com_JItemId :: int64
  com_ParentId :: string
  com_Subject :: string
  com_Body :: string
  com_Date :: string

record LJUserMap =
  um_Id :: UserId
  um_User :: string

record LJCommentMetaChunk =
  chunk_MaxId :: CommentId
  chunk_Comments :: "LJCommentMeta list"
  chunk_UserMaps :: "LJUserMap list"

record LJCommentChunk =
  body_Comments :: "LJComment list"

record CommentRecord =
  rec_Id :: CommentId
  rec_State :: string
  rec_User :: string
  rec_ParentId :: string
  rec_Date :: string
  rec_Subject :: string
  rec_Body :: string

text \<open>
  What XML-RPC decodes into \<open>interface{}\<close>: \<open>nil\<close>, an \<open>int\<close>, an \<open>int64\<close>, a string, a
  \<open>map[string]interface{}\<close> (in the order \<open>range\<close> visits it), a \<open>[]interface{}\<close>, or a
  value of another type, kept as the name \<open>%T\<close> prints.
\<close>

datatype ljvalue =
    VNil
  | VInt int64
  | VInt64 int64
  | VString string
  | VMap "(string \<times> ljvalue) list"
  | VArray "ljvalue list"
  | VOther string

text \<open>What \<open>stalecucumber\<close> unpickles into \<open>interface{}\<close>, as far as the program tells
  the values apart: an \<open>int64\<close>, a string, a dictionary, or a value of another type (its
  name as \<open>%T\<close> prints it; \<open>nil\<close> is \<open><nil>\<close>).\<close>

datatype pyvalue =
    PyInt int64
  | PyString string
  | PyDict "(pyvalue \<times> pyvalue) list"
  | PyOther string

text \<open>
  The calls made on a \<open>linedb.Encoder\<close>, in order. The package \<open>linedb\<close> is not part of the
  sources at hand: the encoder is the list of the calls made on it, and what
  \<open>GetBytes\<close> makes of them is a parameter (\<open>linedb_GetBytes\<close> below).
\<close>

datatype enc_op =
    EScalar string
  | ETable string
  | EEndTable
  | EAddInt int64
  | EAddInt64 int64
  | EAddString string
  | EEndRow
  | EEmptyLine
  | EComment string

text \<open>Modelled from the spec: the items a \<open>linedb.Decoder\<close> yields (the package is
  missing from the sources). An item is a named scalar or a named table of rows of typed
  fields; a getter that finds no field of its type gives the zero value.\<close>

datatype linedb_field = FInt int64 | FString string

datatype linedb_item = ScalarItem string linedb_field | TableItem string "linedb_field list list"

definition GetString :: "linedb_field list \<Rightarrow> string \<times> linedb_field list" where
  "GetString row = (case row of FString x # rest \<Rightarrow> (x, rest) | _ \<Rightarrow> ([], drop 1 row))"

definition GetInt64 :: "linedb_field list \<Rightarrow> int64 \<times> linedb_field list" where
  "GetInt64 row = (case row of FInt i # rest \<Rightarrow> (i, rest) | _ \<Rightarrow> (0, drop 1 row))"

record http_response =
  resp_data :: string
  resp_readErr :: "string option"
  resp_closeErr :: "string option"
  resp_contentType :: string

record LJSyncItem =
  si_Item :: string
  si_Action :: string
  si_Time :: string

text \<open>
  The libraries and the outside the program calls, as parameters: each answer may depend
  on the number of calls made before it. An \<open>error\<close> is \<open>Inl\<close> of its message.
\<close>

record env =
  client_Get :: "nat \<Rightarrow> string \<Rightarrow> string + string"
  url_QueryEscape :: "string \<Rightarrow> string"
  unmarshal_meta :: "string \<Rightarrow> string + LJCommentMetaChunk"
  unmarshal_body :: "string \<Rightarrow> string + LJCommentChunk"
  unmarshal_file :: "string \<Rightarrow> string + CommentRecord list"
  marshal_file :: "CommentRecord list \<Rightarrow> string + string"
  readFile_err :: "nat \<Rightarrow> string \<Rightarrow> string option"
  writeFile_err :: "nat \<Rightarrow> string \<Rightarrow> string option"
  rename_err :: "nat \<Rightarrow> string \<Rightarrow> string option"
  xmlrpc_NewClient :: "nat \<Rightarrow> string \<Rightarrow> string option"
  call_syncitems :: "nat \<Rightarrow> (string \<times> ljvalue) list \<Rightarrow> string + LJSyncItem list"
  call_getevents :: "nat \<Rightarrow> (string \<times> ljvalue) list \<Rightarrow> string + (string \<times> ljvalue) list list"
  linedb_GetBytes :: "enc_op list \<Rightarrow> string"
  linedb_decode :: "string \<Rightarrow> linedb_item list"
  scan_line :: "string \<Rightarrow> string option \<times> string option"
  close_err :: "nat \<Rightarrow> string \<Rightarrow> string option"
  unpickle_Dict :: "string \<Rightarrow> string + (pyvalue \<times> pyvalue) list"
  unpickle_DictString :: "string \<Rightarrow> string + (string \<times> pyvalue) list"
  mkdirAll_err :: "nat \<Rightarrow> string \<Rightarrow> string option"
  callLJFlatMathod :: "nat \<Rightarrow> string \<Rightarrow> string list \<Rightarrow> Report + (string \<times> string) list"
  http_Get :: "nat \<Rightarrow> string \<Rightarrow> string + http_response"
  mime_ExtensionsByType :: "string \<Rightarrow> string + string list"
  blacklist_ReplaceAllString :: "string \<Rightarrow> string \<Rightarrow> string"

datatype 'a io = IoOk 'a | NotExist | IoErr string

text \<open>\<open>ioutil.ReadFile\<close>.\<close>

definition ReadFile :: "env \<Rightarrow> string \<Rightarrow> sys \<Rightarrow> string io \<times> sys" where
  "ReadFile e p s =
     (case readFile_err e (ticks s) p of
        Some msg \<Rightarrow> (IoErr msg, tick s)
      | None \<Rightarrow> (case files s p of None \<Rightarrow> (NotExist, tick s) | Some d \<Rightarrow> (IoOk d, tick s)))"

text \<open>\<open>writeFileTempRename\<close>: write \<open>filePath + ".tmp"\<close>, then rename it onto
  \<open>filePath\<close>. A failed \<open>WriteFile\<close> is taken to leave the files as they were.\<close>

definition writeFileTempRename :: "env \<Rightarrow> string \<Rightarrow> string \<Rightarrow> sys \<Rightarrow> string option \<times> sys" where
  "writeFileTempRename e filePath data s =
     (let tmp = filePath @ ''.tmp'' in
      case writeFile_err e (ticks s) tmp of
        Some msg \<Rightarrow> (Some msg, tick s)
      | None \<Rightarrow>
          (let s1 = tick (s\<lparr>files := (files s)(tmp \<mapsto> data)\<rparr>) in
           case rename_err e (ticks s1) filePath of
             Some msg \<Rightarrow> (Some msg, tick s1)
           | None \<Rightarrow> (None, tick (s1\<lparr>files := ((files s1)(tmp := None))(filePath \<mapsto> data)\<rparr>))))"

text \<open>\<open>filepath.Join\<close> of a directory and a file name (no cleaning of the result).\<close>

definition filepath_Join :: "string \<Rightarrow> string \<Rightarrow> string" where
  "filepath_Join d f = (if d = [] then f else d @ ''/'' @ f)"

definition xml_Header :: string where
  "xml_Header = ''<?xml version='' @ [CHR 0x22] @ ''1.0'' @ [CHR 0x22] @ '' encoding=''
     @ [CHR 0x22] @ ''UTF-8'' @ [CHR 0x22] @ ''?>'' @ [CHR 0x0A]"

section \<open>Journal state\<close>

record Config =
  server :: string
  username :: string
  dumpDir :: string
  accountDataDir :: string

record journalDB =
  lastSync :: string
  userMap :: "(UserId, string) gomap"
  commentMap :: "(CommentId, commentMeta) gomap"

record journalContext =
  config :: Config
  name :: string
  dir :: string
  db :: journalDB
  shouldWriteDB :: bool
  origDbLastSync :: string
  newEntries :: nat
  newComments :: nat

section \<open>Entry files (writeLJEventDump)\<close>

text \<open>\<open>isValidXmlTagName\<close>: letters and \<open>_\<close> anywhere, digits, \<open>-\<close> and \<open>.\<close> after the
  first byte. A byte outside ASCII belongs to a rune that is none of these.\<close>

fun validTagChars :: "bool \<Rightarrow> string \<Rightarrow> bool" where
  "validTagChars first [] = True"
| "validTagChars first (c # cs) =
     (if (CHR ''A'' \<le> c \<and> c \<le> CHR ''Z'') \<or> (CHR ''a'' \<le> c \<and> c \<le> CHR ''z'') \<or> c = CHR ''_''
      then validTagChars False cs
      else if \<not> first \<and> ((CHR ''0'' \<le> c \<and> c \<le> CHR ''9'') \<or> c = CHR ''-'' \<or> c = CHR ''.'')
      then validTagChars False cs
      else False)"

definition isValidXmlTagName :: "string \<Rightarrow> bool" where
  "isValidXmlTagName s = validTagChars True s"

definition addEscapeXmlValue :: "string \<Rightarrow> string" where
  "addEscapeXmlValue s =
     concat (map (\<lambda>b. if b = CHR ''<'' then ''&lt;'' else if b = CHR ''>'' then ''&gt;''
                        else if b = CHR ''&'' then ''&amp;'' else [b]) s)"

text \<open>\<open>m[key]\<close> for a key of the map; a key that is missing gives \<open>nil\<close>.\<close>

definition valueAt :: "(string \<times> ljvalue) list \<Rightarrow> string \<Rightarrow> ljvalue" where
  "valueAt m key = (case map_of m key of Some v \<Rightarrow> v | None \<Rightarrow> VNil)"

text \<open>A value of a map is smaller than the map: the recursion below ends.\<close>

lemma valueAt_size: "valueAt m key = v \<Longrightarrow> size v \<le> size_list (size_prod (\<lambda>_. 0) size) m"
proof (induction m)
  case Nil
  then show ?case by (auto simp: valueAt_def)
next
  case (Cons p m)
  then show ?case by (cases p) (auto simp: valueAt_def split: if_splits)
qed

text \<open>
  \<open>serializeTagValue\<close> and \<open>serializeMap\<close>, with the bytes each call appends to \<open>buf\<close>.
  \<open>serializeMap\<close> first collects the keys and returns a report at the first key (in the
  order of \<open>range\<close>) that is no tag name, before it writes anything; then it sorts the keys
  and writes the values, dropping what \<open>serializeTagValue\<close> returns.
\<close>

function serializeTagValue :: "string \<Rightarrow> ljvalue \<Rightarrow> Report option \<times> string"
  and serializeMap :: "(string \<times> ljvalue) list \<Rightarrow> Report option \<times> string" where
  "serializeTagValue tag VNil = (None, ''<'' @ tag @ ''/>'' @ [CHR 0x0A])"
| "serializeTagValue tag (VInt i) =
     (None, ''<'' @ tag @ ''>'' @ fmt_int64 i @ ''</'' @ tag @ ''>'' @ [CHR 0x0A])"
| "serializeTagValue tag (VInt64 i) =
     (None, ''<'' @ tag @ ''>'' @ fmt_int64 i @ ''</'' @ tag @ ''>'' @ [CHR 0x0A])"
| "serializeTagValue tag (VString x) =
     (None, ''<'' @ tag @ ''>'' @ addEscapeXmlValue x @ ''</'' @ tag @ ''>'' @ [CHR 0x0A])"
| "serializeTagValue tag (VMap m) =
     (case serializeMap m of
        (Some r, out) \<Rightarrow> (Some r, ''<'' @ tag @ ''>'' @ [CHR 0x0A] @ out)
      | (None, out) \<Rightarrow> (None, ''<'' @ tag @ ''>'' @ [CHR 0x0A] @ out @ ''</'' @ tag @ ''>'' @ [CHR 0x0A]))"
| "serializeTagValue tag (VArray a) =
     (Some (ReportMsg ''unsupported []interface {} type in received LJEvent''), ''<'' @ tag @ ''>'')"
| "serializeTagValue tag (VOther ty) =
     (Some (ReportMsg (''unsupported '' @ ty @ '' type in received LJEvent'')), ''<'' @ tag @ ''>'')"
| "serializeMap m =
     (case filter (\<lambda>key. \<not> isValidXmlTagName key) (map fst m) of
        key # _ \<Rightarrow>
          (Some (ReportMsg (''cannot serialize map key '' @ [CHR 0x27] @ key @ [CHR 0x27] @ '' as XML name'')), [])
      | [] \<Rightarrow>
          (None,
           concat (map (\<lambda>key.
               (case valueAt m key of
                  VArray array \<Rightarrow> concat (map (\<lambda>elem. snd (serializeTagValue key elem)) array)
                | v \<Rightarrow> snd (serializeTagValue key v)))
             (sort (map fst m)))))"
  by pat_completeness auto

termination
  apply (relation "measure (\<lambda>x. case x of Inl (tag, v) \<Rightarrow> 2 * size v
                 | Inr m \<Rightarrow> 2 * size_list (size_prod (\<lambda>_. 0) size) m + 1)")
  apply simp_all
  subgoal premises prems for m key inner
    using valueAt_size [OF prems(3)] by simp
  subgoal premises prems for m key array elem
    using valueAt_size [OF prems(3)] size_list_estimation' [OF prems(4), of "size elem" size] by simp
  done

text \<open>\<open>writeLJEventDump(jcx, eventType, itemId, event)\<close>.\<close>

definition eventPath :: "journalContext \<Rightarrow> char \<Rightarrow> int64 \<Rightarrow> string" where
  "eventPath jcx eventType itemId = filepath_Join (dir jcx) ([eventType] @ ''-'' @ fmt_int64 itemId)"

definition eventBytes :: "string \<Rightarrow> string" where
  "eventBytes out = xml_Header @ ''<event>'' @ [CHR 0x0A] @ out @ ''</event>'' @ [CHR 0x0A]"

definition writeLJEventDump ::
  "env \<Rightarrow> journalContext \<Rightarrow> char \<Rightarrow> int64 \<Rightarrow> (string \<times> ljvalue) list \<Rightarrow> sys \<Rightarrow> Report option \<times> sys" where
  "writeLJEventDump e jcx eventType itemId event s =
     (case serializeMap event of
        (Some r, out) \<Rightarrow> (Some r, s)
      | (None, out) \<Rightarrow>
          (case writeFileTempRename e (eventPath jcx eventType itemId) (eventBytes out) s of
             (Some msg, s1) \<Rightarrow> (Some (WrapErr msg []), s1)
           | (None, s1) \<Rightarrow> (None, s1)))"

section \<open>Post synchronization (dumpJournalPosts)\<close>

text \<open>\<open>strconv.ParseInt(s, 10, 64)\<close>: an optional sign, then decimal digits, at least one,
  with the value in the range of \<open>int64\<close>; \<open>None\<close> is an error.\<close>

definition isDigit :: "char \<Rightarrow> bool" where
  "isDigit c = (CHR ''0'' \<le> c \<and> c \<le> CHR ''9'')"

definition parseDigits :: "string \<Rightarrow> nat option" where
  "parseDigits ds =
     (if ds = [] \<or> \<not> list_all isDigit ds then None
      else Some (foldl (\<lambda>n c. 10 * n + (of_char c - 48)) 0 ds))"

definition ParseInt :: "string \<Rightarrow> int64 option" where
  "ParseInt x =
     (case x of
        [] \<Rightarrow> None
      | c # cs \<Rightarrow>
          (case parseDigits (if c = CHR ''+'' \<or> c = CHR ''-'' then cs else x) of
             None \<Rightarrow> None
           | Some n \<Rightarrow>
               (if c = CHR ''-'' then (if n \<le> 2 ^ 63 then Some (word_of_int (- int n)) else None)
                else (if n < 2 ^ 63 then Some (word_of_nat n) else None))))"

text \<open>\<open>callWithLogin\<close> adds the login fields to the parameters of a call.\<close>

definition withLogin :: "journalContext \<Rightarrow> (string \<times> ljvalue) list \<Rightarrow> (string \<times> ljvalue) list" where
  "withLogin jcx input =
     AList.update ''auth_method'' (VString ''cookie'')
       (AList.update ''ver'' (VInt 1)
         (AList.update ''username'' (VString (username (config jcx))) input))"

text \<open>The line that \<open>log("WARNING: invalid SyncItems id %s", item.Item[1])\<close> writes: the
  argument is a byte, which \<open>%s\<close> prints as \<open>%!s(uint8=N)\<close>.\<close>

definition invalidIdLine :: "char \<Rightarrow> string" where
  "invalidIdLine b = ''WARNING: invalid SyncItems id %!s(uint8='' @ fmt_nat (of_char b) @ '')''"

text \<open>
  The body of the loop over \<open>syncItemsResult.SyncItems\<close>. \<open>Returned None\<close> is the end of
  the body or a \<open>continue\<close>; \<open>Returned (Some r)\<close> is \<open>return r\<close>; indexing \<open>item.Item[1]\<close>
  in a string shorter than two bytes panics.
\<close>

definition entryLine :: "LJSyncItem \<Rightarrow> string" where
  "entryLine item = ''Fetching journal entry '' @ si_Item item @ '' ('' @ si_Action item @ '')''"

definition fetchEntry ::
  "env \<Rightarrow> LJSyncItem \<Rightarrow> int64 \<Rightarrow> journalContext \<times> sys \<Rightarrow> outcome \<times> journalContext \<times> sys" where
  "fetchEntry e item itemid js =
     (case js of (jcx, s) \<Rightarrow>
        (let s1 = log (entryLine item) s;
             geteventsParams =
               [(''selecttype'', VString ''one''), (''itemid'', VInt64 itemid),
                (''usejournal'', VString (name jcx)), (''lineendings'', VString ''unix'')]
         in case call_getevents e (ticks s1) (withLogin jcx geteventsParams) of
              Inl msg \<Rightarrow> (Returned (Some (WrapErr msg [])), jcx, tick s1)
            | Inr [] \<Rightarrow>
                (Returned (Some (ReportMsg (''Unexpected empty item '' @ si_Item item))), jcx, tick s1)
            | Inr (event # _) \<Rightarrow>
                (case writeLJEventDump e jcx (si_Item item ! 0) itemid event (tick s1) of
                   (Some r, s2) \<Rightarrow> (Returned (Some r), jcx, s2)
                 | (None, s2) \<Rightarrow> (Returned None, jcx\<lparr>newEntries := Suc (newEntries jcx)\<rparr>, s2))))"

definition processItem :: "env \<Rightarrow> LJSyncItem \<Rightarrow> journalContext \<times> sys \<Rightarrow> outcome \<times> journalContext \<times> sys" where
  "processItem e item js =
     (let it = si_Item item in
      if length it < 3 \<or> it ! 1 \<noteq> CHR ''-'' then
        (if length it < 2 then
           (Panicked (''runtime error: index out of range [1] with length '' @ fmt_nat (length it)), js)
         else (Returned None, fst js, log (invalidIdLine (it ! 1)) (snd js)))
      else
        (case ParseInt (drop 2 it) of
           None \<Rightarrow> (Returned None, fst js, log (invalidIdLine (it ! 1)) (snd js))
         | Some itemid \<Rightarrow>
             (case (if it ! 0 = CHR ''L'' then fetchEntry e item itemid js else (Returned None, js)) of
                (Returned None, jcx1, s1) \<Rightarrow>
                  (Returned None,
                   jcx1\<lparr>db := (db jcx1)\<lparr>lastSync := si_Time item\<rparr>, shouldWriteDB := True\<rparr>, s1)
              | res \<Rightarrow> res)))"

fun processItems :: "env \<Rightarrow> LJSyncItem list \<Rightarrow> journalContext \<times> sys \<Rightarrow> outcome \<times> journalContext \<times> sys" where
  "processItems e [] js = (Returned None, js)"
| "processItems e (item # items) js =
     (case processItem e item js of
        (Returned None, js1) \<Rightarrow> processItems e items js1
      | res \<Rightarrow> res)"

text \<open>The outer \<open>for\<close> loop: ask for the items since \<open>lastSync\<close> until none is left.\<close>

definition syncItemsParams :: "journalContext \<Rightarrow> (string \<times> ljvalue) list" where
  "syncItemsParams jcx = [(''lastsync'', VString (lastSync (db jcx))), (''usejournal'', VString (name jcx))]"

partial_function (option) syncLoop ::
  "env \<Rightarrow> journalContext \<times> sys \<Rightarrow> (outcome \<times> journalContext \<times> sys) option" where
  "syncLoop e js =
     (case call_syncitems e (ticks (snd js)) (withLogin (fst js) (syncItemsParams (fst js))) of
        Inl msg \<Rightarrow> Some (Returned (Some (WrapErr msg [])), fst js, tick (snd js))
      | Inr items \<Rightarrow>
          (if items = [] then Some (Returned None, fst js, tick (snd js))
           else (case processItems e items (fst js, tick (snd js)) of
                   (Returned None, js1) \<Rightarrow> syncLoop e js1
                 | res \<Rightarrow> Some res)))"

definition entriesLine :: "journalContext \<Rightarrow> string" where
  "entriesLine jcx = ''Fetching journal entries for: '' @ name jcx"

definition dumpJournalPosts :: "env \<Rightarrow> journalContext \<times> sys \<Rightarrow> (outcome \<times> journalContext \<times> sys) option" where
  "dumpJournalPosts e js =
     (case js of (jcx, s0) \<Rightarrow>
        (let s = log (entriesLine jcx) s0 in
         case xmlrpc_NewClient e (ticks s) (server (config jcx) @ ''/interface/xmlrpc'') of
           Some msg \<Rightarrow> Some (Returned (Some (WrapErr msg [])), jcx, tick s)
         | None \<Rightarrow> syncLoop e (jcx, tick s)))"

text \<open>
  For the statements about the cursor: an item id of the shape the loop accepts (a type
  letter, \<open>-\<close>, an \<open>int64\<close>), and the cursor after a run of items that were all processed:
  the time of the last one with such an id.
\<close>

definition validItemId :: "string \<Rightarrow> bool" where
  "validItemId it = (3 \<le> length it \<and> it ! 1 = CHR ''-'' \<and> ParseInt (drop 2 it) \<noteq> None)"

definition cursorAfter :: "string \<Rightarrow> LJSyncItem list \<Rightarrow> string" where
  "cursorAfter cur items = foldl (\<lambda>c item. if validItemId (si_Item item) then si_Time item else c) cur items"

section \<open>Comment synchronization (dumpJournalComments)\<close>

text \<open>\<open>maxStoredCommentId\<close>: the highest key of \<open>jcx.db.commentMap\<close>, \<open>-1\<close> when there is
  none.\<close>

definition maxStoredCommentId :: "journalContext \<Rightarrow> CommentId" where
  "maxStoredCommentId jcx =
     fold (\<lambda>(i, _) m. if sint m < sint i then i else m) (map_range (commentMap (db jcx))) (- 1)"

definition authas :: "env \<Rightarrow> journalContext \<Rightarrow> string" where
  "authas e jcx =
     (if username (config jcx) \<noteq> name jcx then ''&authas='' @ url_QueryEscape e (name jcx) else [])"

definition comment_url :: "env \<Rightarrow> journalContext \<Rightarrow> string \<Rightarrow> CommentId \<Rightarrow> string" where
  "comment_url e jcx kind maxid =
     server (config jcx) @ ''/export_comments.bml?get=comment_'' @ kind @ ''&startid=''
       @ fmt_int64 (maxid + 1) @ authas e jcx"

text \<open>\<open>fetchCommentData(kind, maxid, v)\<close>; \<open>unm\<close> is \<open>xml.Unmarshal\<close> into the type of
  \<open>v\<close>.\<close>

definition fetchCommentData ::
  "env \<Rightarrow> journalContext \<Rightarrow> string \<Rightarrow> CommentId \<Rightarrow> (string \<Rightarrow> string + 'a) \<Rightarrow> sys \<Rightarrow> (Report + 'a) \<times> sys" where
  "fetchCommentData e jcx kind maxid unm s =
     (case client_Get e (ticks s) (comment_url e jcx kind maxid) of
        Inl msg \<Rightarrow> (Inl (WrapErr msg (''failed to read comment_'' @ kind @ '' response'')), tick s)
      | Inr data \<Rightarrow>
          (case unm data of
             Inl msg \<Rightarrow>
               (Inl (WrapErr msg (''failed to process comments_'' @ kind
                  @ '' response, possibly not community maintainer?'')), tick s)
           | Inr v \<Rightarrow> (Inr v, tick s)))"

text \<open>The local variables of the meta pass.\<close>

record metaVars =
  mv_newComments :: "(CommentId \<times> commentMeta) list"
  mv_newCommentUsers :: "(UserId \<times> string) list"
  mv_newMaxId :: CommentId

text \<open>\<open>newComments\<close> and \<open>newCommentUsers\<close> are made empty, and the frontier starts at the
  highest stored id.\<close>

definition startVars :: "CommentId \<Rightarrow> metaVars" where
  "startVars i = \<lparr>mv_newComments = [], mv_newCommentUsers = [], mv_newMaxId = i\<rparr>"

definition absorbComment :: "LJCommentMeta \<Rightarrow> metaVars \<Rightarrow> metaVars" where
  "absorbComment c v =
     v\<lparr>mv_newComments :=
          AList.update (meta_Id c) \<lparr>posterId = meta_PosterId c, state = meta_State c\<rparr> (mv_newComments v),
        mv_newMaxId := (if sint (mv_newMaxId v) < sint (meta_Id c) then meta_Id c else mv_newMaxId v)\<rparr>"

definition absorbUser :: "LJUserMap \<Rightarrow> metaVars \<Rightarrow> metaVars" where
  "absorbUser u v = v\<lparr>mv_newCommentUsers := AList.update (um_Id u) (um_User u) (mv_newCommentUsers v)\<rparr>"

definition absorbChunk :: "LJCommentMetaChunk \<Rightarrow> metaVars \<Rightarrow> metaVars" where
  "absorbChunk ch v = fold absorbUser (chunk_UserMaps ch) (fold absorbComment (chunk_Comments ch) v)"

text \<open>The first loop of \<open>dumpJournalComments\<close>. It returns the report of a failed fetch,
  or the local variables at the \<open>break\<close> together with \<open>metaChunk.MaxId\<close> of the last
  chunk; \<open>None\<close> is a loop that never ends.\<close>

partial_function (option) metaLoop ::
  "env \<Rightarrow> journalContext \<Rightarrow> metaVars \<Rightarrow> sys \<Rightarrow> ((Report + metaVars \<times> CommentId) \<times> sys) option" where
  "metaLoop e jcx v s =
     (case fetchCommentData e jcx ''meta'' (mv_newMaxId v) (unmarshal_meta e) s of
        (Inl r, s1) \<Rightarrow> Some (Inl r, s1)
      | (Inr metaChunk, s1) \<Rightarrow>
          (let v1 = absorbChunk metaChunk v in
           if sint (chunk_MaxId metaChunk) \<le> sint (mv_newMaxId v1)
           then Some (Inr (v1, chunk_MaxId metaChunk), s1)
           else metaLoop e jcx v1 s1))"

text \<open>The record built from a fetched comment: a missing state is taken from the meta
  pass, then from the stored map; the user name likewise.\<close>

definition makeRecord :: "journalContext \<Rightarrow> metaVars \<Rightarrow> LJComment \<Rightarrow> CommentRecord" where
  "makeRecord jcx v c =
     \<lparr>rec_Id = com_Id c,
      rec_State =
        (if com_State c = [] then
           (case map_of (mv_newComments v) (com_Id c) of
              Some m \<Rightarrow> state m
            | None \<Rightarrow> (case map_index (commentMap (db jcx)) (com_Id c) of Some m \<Rightarrow> state m | None \<Rightarrow> []))
         else com_State c),
      rec_User =
        (if com_PosterId c \<noteq> 0 then
           (case map_of (mv_newCommentUsers v) (com_PosterId c) of
              Some u \<Rightarrow> u
            | None \<Rightarrow> (case map_index (userMap (db jcx)) (com_PosterId c) of Some u \<Rightarrow> u | None \<Rightarrow> []))
         else []),
      rec_ParentId = com_ParentId c,
      rec_Date = com_Date c,
      rec_Subject = com_Subject c,
      rec_Body = com_Body c\<rparr>"

text \<open>The scan of \<open>stored.Comments\<close> for the id of \<open>record\<close>: the new list, \<open>foundDup\<close>,
  \<open>shouldStore\<close> and the line logged, if any.\<close>

fun scanStored ::
  "string \<Rightarrow> CommentRecord list \<Rightarrow> CommentRecord \<Rightarrow> CommentRecord list \<times> bool \<times> bool \<times> string list" where
  "scanStored path [] r = ([], False, True, [])"
| "scanStored path (x # xs) r =
     (if rec_Id x = rec_Id r then
        (if x = r then
           (x # xs, True, False,
            [''comment id '' @ fmt_int64 (rec_Id r) @ '' was already downloaded in '' @ path])
         else
           (r # xs, True, True,
            [''Warning: downloaded duplicate comment id '' @ fmt_int64 (rec_Id r)
               @ '' with different content in '' @ path]))
      else (case scanStored path xs r of (ys, found, store, lines) \<Rightarrow> (x # ys, found, store, lines)))"

text \<open>The comments of the file after the merge, and \<open>shouldStore\<close>.\<close>

definition mergeComment :: "string \<Rightarrow> CommentRecord list \<Rightarrow> CommentRecord \<Rightarrow> CommentRecord list \<times> bool \<times> string list" where
  "mergeComment path stored r =
     (case scanStored path stored r of
        (ys, foundDup, shouldStore, lines) \<Rightarrow>
          ((if foundDup then ys else ys @ [r]), shouldStore, lines))"

text \<open>The body of the inner loop of the second pass, from \<open>commentFilePath\<close> on.\<close>

definition storeComment ::
  "env \<Rightarrow> LJComment \<Rightarrow> CommentRecord \<Rightarrow> journalContext \<times> sys \<Rightarrow> outcome \<times> journalContext \<times> sys" where
  "storeComment e c r js =
     (case js of (jcx, s) \<Rightarrow>
        (let commentFilePath = filepath_Join (dir jcx) (''C-'' @ fmt_int64 (com_JItemId c)) in
         case ReadFile e commentFilePath s of
           (IoErr msg, s1) \<Rightarrow>
             (Returned (Some (WrapErr msg (''error while reading old comments from '' @ commentFilePath))), jcx, s1)
         | (rd, s1) \<Rightarrow>
             (case (case rd of IoOk olddata \<Rightarrow> unmarshal_file e olddata | _ \<Rightarrow> Inr []) of
                Inl msg \<Rightarrow>
                  (Returned (Some (WrapErr msg (''failed to parse old comments from '' @ commentFilePath))), jcx, s1)
              | Inr stored \<Rightarrow>
                  (case mergeComment commentFilePath stored r of
                     (stored1, shouldStore, lines) \<Rightarrow>
                      (let s2 = fold log lines s1 in
                       if shouldStore then
                         (case marshal_file e stored1 of
                            Inl msg \<Rightarrow> (Panicked msg, jcx, s2)
                          | Inr x \<Rightarrow>
                              (case writeFileTempRename e commentFilePath (xml_Header @ x @ [CHR 0x0A]) s2 of
                                 (Some msg, s3) \<Rightarrow> (Returned (Some (WrapErr msg [])), jcx, s3)
                               | (None, s3) \<Rightarrow>
                                   (Returned None, jcx\<lparr>newComments := Suc (newComments jcx)\<rparr>, s3)))
                       else (Returned None, jcx, s2))))))"

text \<open>The inner loop over \<open>chunk.Comments\<close>; the frontier \<open>maxFetchedId\<close> moves before the
  comment is stored.\<close>

fun storeChunk ::
  "env \<Rightarrow> metaVars \<Rightarrow> LJComment list \<Rightarrow> CommentId \<Rightarrow> journalContext \<times> sys \<Rightarrow> outcome \<times> CommentId \<times> journalContext \<times> sys" where
  "storeChunk e v [] maxFetchedId js = (Returned None, maxFetchedId, js)"
| "storeChunk e v (c # cs) maxFetchedId js =
     (let r = makeRecord (fst js) v c;
          m = (if sint maxFetchedId < sint (com_Id c) then com_Id c else maxFetchedId)
      in case storeComment e c r js of
           (Returned None, js1) \<Rightarrow> storeChunk e v cs m js1
         | (out, js1) \<Rightarrow> (out, m, js1))"

text \<open>The second loop of \<open>dumpJournalComments\<close>.\<close>

partial_function (option) bodyLoop ::
  "env \<Rightarrow> metaVars \<Rightarrow> CommentId \<Rightarrow> journalContext \<times> sys \<Rightarrow> (outcome \<times> CommentId \<times> journalContext \<times> sys) option" where
  "bodyLoop e v maxFetchedId js =
     (case fetchCommentData e (fst js) ''body'' maxFetchedId (unmarshal_body e) (snd js) of
        (Inl r, s1) \<Rightarrow> Some (Returned (Some r), maxFetchedId, fst js, s1)
      | (Inr chunk, s1) \<Rightarrow>
          (case storeChunk e v (body_Comments chunk) maxFetchedId (fst js, s1) of
             (Returned None, m, js1) \<Rightarrow>
               (if sint (mv_newMaxId v) \<le> sint m then Some (Returned None, m, js1)
                else bodyLoop e v m js1)
           | res \<Rightarrow> Some res))"



text \<open>The merge that ends \<open>dumpJournalComments\<close>: every assignment into a nil map
  panics.\<close>

fun assignAll :: "('k, 'v) gomap \<Rightarrow> ('k \<times> 'v) list \<Rightarrow> ('k, 'v) gomap option" where
  "assignAll m [] = Some m"
| "assignAll m ((k, x) # kvs) = (case map_assign m k x of None \<Rightarrow> None | Some m1 \<Rightarrow> assignAll m1 kvs)"

definition mergeMeta :: "metaVars \<Rightarrow> journalContext \<Rightarrow> outcome \<times> journalContext" where
  "mergeMeta v jcx =
     (if mv_newComments v \<noteq> [] \<or> mv_newCommentUsers v \<noteq> [] then
        (case assignAll (commentMap (db jcx)) (mv_newComments v) of
           None \<Rightarrow> (Panicked ''assignment to entry in nil map'', jcx)
         | Some cm \<Rightarrow>
             (let jcx1 = jcx\<lparr>db := (db jcx)\<lparr>commentMap := cm\<rparr>\<rparr> in
              case assignAll (userMap (db jcx1)) (mv_newCommentUsers v) of
                None \<Rightarrow> (Panicked ''assignment to entry in nil map'', jcx1)
              | Some um \<Rightarrow>
                  (Returned None, jcx1\<lparr>db := (db jcx1)\<lparr>userMap := um\<rparr>, shouldWriteDB := True\<rparr>)))
      else (Returned None, jcx))"

definition commentsLine :: "journalContext \<Rightarrow> string" where
  "commentsLine jcx = ''Fetching journal comments for: '' @ name jcx"

definition dumpJournalComments :: "env \<Rightarrow> journalContext \<times> sys \<Rightarrow> (outcome \<times> journalContext \<times> sys) option" where
  "dumpJournalComments e js =
     (case js of (jcx, s0) \<Rightarrow>
        (let s = log (commentsLine jcx) s0;
             start = maxStoredCommentId jcx
         in case metaLoop e jcx (startVars start) s of
              None \<Rightarrow> None
            | Some (Inl r, s1) \<Rightarrow> Some (Returned (Some r), jcx, s1)
            | Some (Inr (v, declared), s1) \<Rightarrow>
                (case bodyLoop e v start (jcx, s1) of
                   None \<Rightarrow> None
                 | Some (Returned None, m, jcx2, s2) \<Rightarrow>
                     (case mergeMeta v jcx2 of (out, jcx3) \<Rightarrow> Some (out, jcx3, s2))
                 | Some (out, m, jcx2, s2) \<Rightarrow> Some (out, jcx2, s2))))"


section \<open>The journal state file (writeJournalDB, readJournalDB)\<close>

definition journalDBFileName :: string where
  "journalDBFileName = ''journal.linedb''"

text \<open>\<open>writeJournalDB\<close>: the calls on the encoder. The keys of each map are collected in
  the order of \<open>range\<close>, sorted as \<open>int64\<close>, and the rows are written in that order.\<close>

definition sortIds :: "int64 list \<Rightarrow> int64 list" where
  "sortIds ids = sort_key sint ids"

definition journalDB_ops :: "journalDB \<Rightarrow> enc_op list" where
  "journalDB_ops d =
     [EScalar ''lastSync'', EAddString (lastSync d), EEmptyLine, EComment ''map from user-id to user-name'',
      ETable ''users'']
     @ concat (map (\<lambda>userId.
          [EAddInt64 userId,
           EAddString (case map_index (userMap d) userId of Some u \<Rightarrow> u | None \<Rightarrow> []),
           EEndRow])
        (sortIds (map fst (map_range (userMap d)))))
     @ [EEndTable, EEmptyLine, EComment ''map from comment-id to (poster-id state)'', ETable ''commentMeta'']
     @ concat (map (\<lambda>commentId.
          (case map_index (commentMap d) commentId of
             Some m \<Rightarrow> [EAddInt64 commentId, EAddInt64 (posterId m), EAddString (state m), EEndRow]
           | None \<Rightarrow> [EAddInt64 commentId, EAddInt64 0, EAddString [], EEndRow]))
        (sortIds (map fst (map_range (commentMap d)))))
     @ [EEndTable]"

definition writeJournalDB :: "env \<Rightarrow> journalContext \<Rightarrow> sys \<Rightarrow> Report option \<times> sys" where
  "writeJournalDB e jcx s =
     (let dbpath = filepath_Join (dir jcx) journalDBFileName in
      case writeFileTempRename e dbpath (linedb_GetBytes e (journalDB_ops (db jcx))) s of
        (Some msg, s1) \<Rightarrow> (Some (WrapErr msg (''failed to write journal db file '' @ dbpath)), s1)
      | (None, s1) \<Rightarrow> (None, s1))"

text \<open>\<open>os.Open\<close> and what is then read from the file.\<close>

definition OpenFile :: "env \<Rightarrow> string \<Rightarrow> sys \<Rightarrow> string io \<times> sys" where
  "OpenFile e p s = ReadFile e p s"

definition readPythonLastRunFile :: "env \<Rightarrow> journalContext \<times> sys \<Rightarrow> string option \<times> journalContext \<times> sys" where
  "readPythonLastRunFile e js =
     (case js of (jcx0, s) \<Rightarrow>
        (let jcx = jcx0\<lparr>db := (db jcx0)\<lparr>lastSync := []\<rparr>\<rparr>;
             p = filepath_Join (dir jcx) ''.last''
         in case OpenFile e p s of
              (NotExist, s1) \<Rightarrow> (None, jcx, s1)
            | (IoErr msg, s1) \<Rightarrow> (Some msg, jcx, s1)
            | (IoOk data, s1) \<Rightarrow>
                (case scan_line e data of
                   (line, scanErr) \<Rightarrow>
                     (fuseErr scanErr (close_err e (ticks s1) p),
                      (case line of None \<Rightarrow> jcx | Some x \<Rightarrow> jcx\<lparr>db := (db jcx)\<lparr>lastSync := x\<rparr>\<rparr>),
                      tick s1))))"

text \<open>\<open>parseUserId\<close>; \<open>None\<close> is an error.\<close>

definition parseUserId :: "string \<Rightarrow> UserId option" where
  "parseUserId idstr = (if idstr = [] then Some 0 else ParseInt idstr)"

definition pyTypeName :: "pyvalue option \<Rightarrow> string" where
  "pyTypeName v =
     (case v of
        None \<Rightarrow> ''<nil>''
      | Some (PyInt _) \<Rightarrow> ''int64''
      | Some (PyString _) \<Rightarrow> ''string''
      | Some (PyDict _) \<Rightarrow> ''map[interface {}]interface {}''
      | Some (PyOther ty) \<Rightarrow> ty)"

text \<open>The loop of \<open>readPythonCommentMeta\<close> over the unpickled dictionary: it stores the
  entries until one is not of the expected types.\<close>

fun commentMetaEntries ::
  "string \<Rightarrow> (pyvalue \<times> pyvalue) list \<Rightarrow> (CommentId \<times> commentMeta) list
     \<Rightarrow> string option \<times> (CommentId \<times> commentMeta) list" where
  "commentMetaEntries p [] m = (None, m)"
| "commentMetaEntries p ((key, val) # rest) m =
     (case key of
        PyInt idnum \<Rightarrow>
          (case val of
             PyDict structValue \<Rightarrow>
               (case map_of structValue (PyString ''posterid'') of
                  Some (PyString posterIdStr) \<Rightarrow>
                    (case map_of structValue (PyString ''state'') of
                       Some (PyString st) \<Rightarrow>
                         (case parseUserId posterIdStr of
                            None \<Rightarrow> (Some ''failed to parse user id string as int64'', m)
                          | Some poster \<Rightarrow>
                              commentMetaEntries p rest
                                (AList.update idnum \<lparr>posterId = poster, state = st\<rparr> m))
                     | other \<Rightarrow> (Some (''Unexpected state type '' @ pyTypeName other @ '' in '' @ p), m))
                | other \<Rightarrow> (Some (''Unexpected posterid type '' @ pyTypeName other @ '' in '' @ p), m))
           | _ \<Rightarrow> (Some (''Unexpected value type '' @ pyTypeName (Some val) @ '' in '' @ p), m))
      | _ \<Rightarrow> (Some (''Unexpected key type '' @ pyTypeName (Some key) @ '' in '' @ p), m))"

text \<open>\<open>readPythonCommentMeta\<close>: without a file \<open>comment.meta\<close> it returns \<open>nil\<close> and leaves
  \<open>jcx.db.commentMap\<close> as it was.\<close>

definition readPythonCommentMeta :: "env \<Rightarrow> journalContext \<times> sys \<Rightarrow> string option \<times> journalContext \<times> sys" where
  "readPythonCommentMeta e js =
     (case js of (jcx, s) \<Rightarrow>
        (let p = filepath_Join (dir jcx) ''comment.meta'' in
         case OpenFile e p s of
           (NotExist, s1) \<Rightarrow> (None, jcx, s1)
         | (IoErr msg, s1) \<Rightarrow> (Some msg, jcx, s1)
         | (IoOk data, s1) \<Rightarrow>
             (case unpickle_Dict e data of
                Inl msg \<Rightarrow> (fuseErr (Some msg) (close_err e (ticks s1) p), jcx, tick s1)
              | Inr pythonData \<Rightarrow>
                  (case commentMetaEntries p pythonData [] of
                     (er, m) \<Rightarrow>
                       (fuseErr er (close_err e (ticks s1) p),
                        jcx\<lparr>db := (db jcx)\<lparr>commentMap := Some m\<rparr>\<rparr>, tick s1)))))"

fun userMapEntries ::
  "string \<Rightarrow> (string \<times> pyvalue) list \<Rightarrow> (UserId \<times> string) list \<Rightarrow> string option \<times> (UserId \<times> string) list" where
  "userMapEntries p [] m = (None, m)"
| "userMapEntries p ((userIdStr, userValue) # rest) m =
     (case userValue of
        PyString user \<Rightarrow>
          (case parseUserId userIdStr of
             None \<Rightarrow> (Some ''failed to parse user id string as int64'', m)
           | Some userId \<Rightarrow> userMapEntries p rest (AList.update userId user m))
      | _ \<Rightarrow> (Some (''Unexpected user name type '' @ pyTypeName (Some userValue) @ '' in '' @ p), m))"

definition readPythonUserMap :: "env \<Rightarrow> journalContext \<times> sys \<Rightarrow> string option \<times> journalContext \<times> sys" where
  "readPythonUserMap e js =
     (case js of (jcx, s) \<Rightarrow>
        (let p = filepath_Join (dir jcx) ''user.map'' in
         case OpenFile e p s of
           (NotExist, s1) \<Rightarrow> (None, jcx, s1)
         | (IoErr msg, s1) \<Rightarrow> (Some msg, jcx, s1)
         | (IoOk data, s1) \<Rightarrow>
             (case unpickle_DictString e data of
                Inl msg \<Rightarrow> (fuseErr (Some msg) (close_err e (ticks s1) p), jcx, tick s1)
              | Inr pythonData \<Rightarrow>
                  (case userMapEntries p pythonData [] of
                     (er, m) \<Rightarrow>
                       (fuseErr er (close_err e (ticks s1) p),
                        jcx\<lparr>db := (db jcx)\<lparr>userMap := Some m\<rparr>\<rparr>, tick s1)))))"

text \<open>The rows of a table of \<open>journal.linedb\<close>.\<close>

definition userRow :: "linedb_field list \<Rightarrow> journalDB \<Rightarrow> journalDB" where
  "userRow row d =
     (case GetInt64 row of (k, r1) \<Rightarrow>
        (case GetString r1 of (u, r2) \<Rightarrow>
           d\<lparr>userMap := Some (AList.update k u (map_range (userMap d)))\<rparr>))"

definition commentMetaRow :: "linedb_field list \<Rightarrow> journalDB \<Rightarrow> journalDB" where
  "commentMetaRow row d =
     (case GetInt64 row of (k, r1) \<Rightarrow>
        (case GetInt64 r1 of (poster, r2) \<Rightarrow>
           (case GetString r2 of (st, r3) \<Rightarrow>
              d\<lparr>commentMap := Some (AList.update k \<lparr>posterId = poster, state = st\<rparr> (map_range (commentMap d)))\<rparr>)))"

definition readItem :: "linedb_item \<Rightarrow> journalDB \<Rightarrow> journalDB" where
  "readItem item d =
     (case item of
        ScalarItem nm f \<Rightarrow> (if nm = ''lastSync'' then d\<lparr>lastSync := fst (GetString [f])\<rparr> else d)
      | TableItem nm rows \<Rightarrow>
          (if nm = ''users'' then fold userRow rows d
           else if nm = ''commentMeta'' then fold commentMetaRow rows d
           else d))"

text \<open>\<open>readJournalDB\<close>. Without a state file, or with an empty one, the files of the
  Python tool are read and the state is written in the new format; otherwise both maps are
  made and filled from the file.\<close>

definition readPythonFiles :: "env \<Rightarrow> journalContext \<times> sys \<Rightarrow> string option \<times> journalContext \<times> sys" where
  "readPythonFiles e js =
     (case readPythonLastRunFile e js of
        (Some msg, js1) \<Rightarrow> (Some msg, js1)
      | (None, js1) \<Rightarrow>
          (case readPythonCommentMeta e js1 of
             (Some msg, js2) \<Rightarrow> (Some msg, js2)
           | (None, js2) \<Rightarrow> readPythonUserMap e js2))"

definition convertingLine :: "string \<Rightarrow> string" where
  "convertingLine dbpath = ''Converting Python Journal DB into '' @ dbpath"

definition readJournalDB :: "env \<Rightarrow> journalContext \<times> sys \<Rightarrow> Report option \<times> journalContext \<times> sys" where
  "readJournalDB e js =
     (case js of (jcx, s) \<Rightarrow>
        (let dbpath = filepath_Join (dir jcx) journalDBFileName in
         case ReadFile e dbpath s of
           (IoErr msg, s1) \<Rightarrow> (Some (WrapErr msg []), jcx, s1)
         | (rd, s1) \<Rightarrow>
             (let dbdata = (case rd of IoOk d \<Rightarrow> d | _ \<Rightarrow> []) in
              if dbdata = [] then
                (case readPythonFiles e (jcx, log (convertingLine dbpath) s1) of
                   (Some msg, jcx2, s2) \<Rightarrow>
                     (Some (WrapErr msg (''error while reading old python-generated DB files for journal ''
                        @ name jcx2)), jcx2, s2)
                 | (None, jcx2, s2) \<Rightarrow>
                     (case writeJournalDB e jcx2 s2 of
                        (Some r, s3) \<Rightarrow> (Some r, jcx2, s3)
                      | (None, s3) \<Rightarrow> (None, jcx2\<lparr>origDbLastSync := lastSync (db jcx2)\<rparr>, s3)))
              else
                (let d = fold readItem (linedb_decode e dbdata)
                           ((db jcx)\<lparr>userMap := Some [], commentMap := Some []\<rparr>)
                 in (None, jcx\<lparr>db := d, origDbLastSync := lastSync d\<rparr>, s1)))))"

section \<open>One journal (dumpJournal)\<close>

definition newJournalContext :: "Config \<Rightarrow> string \<Rightarrow> journalContext" where
  "newJournalContext cfg journalName =
     \<lparr>config = cfg, name = journalName, dir = filepath_Join (dumpDir cfg) journalName,
      db = \<lparr>lastSync = [], userMap = None, commentMap = None\<rparr>,
      shouldWriteDB = False, origDbLastSync = [], newEntries = 0, newComments = 0\<rparr>"

definition summaryLine :: "journalContext \<Rightarrow> string" where
  "summaryLine jcx =
     fmt_nat (newEntries jcx) @ '' new entries, '' @ fmt_nat (newComments jcx) @ '' new comments''
       @ (if origDbLastSync jcx \<noteq> [] then '' (since '' @ origDbLastSync jcx @ '')'' else [])"

text \<open>What \<open>dumpJournal\<close> does once posts and comments are through with the report \<open>r\<close>:
  the state is written when it is dirty, whatever \<open>r\<close> is.\<close>

definition finishJournal :: "env \<Rightarrow> Report option \<Rightarrow> journalContext \<times> sys \<Rightarrow> outcome \<times> journalContext \<times> sys" where
  "finishJournal e r js =
     (case js of (jcx, s) \<Rightarrow>
        (case (if shouldWriteDB jcx
               then (case writeJournalDB e jcx s of (w, s1) \<Rightarrow> (CombineReports r w, s1))
               else (r, s)) of
           (None, s2) \<Rightarrow> (Returned None, jcx, log (summaryLine jcx) s2)
         | (Some r2, s2) \<Rightarrow> (Returned (Some r2), jcx, s2)))"

definition dumpJournal :: "env \<Rightarrow> journalContext \<times> sys \<Rightarrow> (outcome \<times> journalContext \<times> sys) option" where
  "dumpJournal e js =
     (case readJournalDB e js of
        (Some r, js1) \<Rightarrow> Some (Returned (Some r), js1)
      | (None, jcx1, s1) \<Rightarrow>
          (case mkdirAll_err e (ticks s1) (dir jcx1) of
             Some msg \<Rightarrow>
               Some (Returned (Some (WrapErr msg (''failed to create directory for journal '' @ dir jcx1))),
                     jcx1, tick s1)
           | None \<Rightarrow>
               (case dumpJournalPosts e (jcx1, tick s1) of
                  None \<Rightarrow> None
                | Some (Panicked msg, js2) \<Rightarrow> Some (Panicked msg, js2)
                | Some (Returned (Some r), js2) \<Rightarrow> Some (finishJournal e (Some r) js2)
                | Some (Returned None, js2) \<Rightarrow>
                    (case dumpJournalComments e js2 of
                       None \<Rightarrow> None
                     | Some (Panicked msg, js3) \<Rightarrow> Some (Panicked msg, js3)
                     | Some (Returned r, js3) \<Rightarrow> Some (finishJournal e r js3)))))"

section \<open>Account data and pictures (dumpAccountData)\<close>

record accountData =
  fileCounter :: int64
  pictureDefaultUrl :: string
  pictureUrlFileMap :: "(string, string) gomap"
  pictureKeywordUrlMap :: "(string, string) gomap"

definition accountDataDBFileName :: string where
  "accountDataDBFileName = ''account.linedb''"

text \<open>\<open>addSortedMapKeyValue\<close>: the keys in the order of \<open>range\<close>, sorted as strings, one row
  for each.\<close>

definition addSortedMapKeyValue :: "enc_op list \<Rightarrow> string \<Rightarrow> (string, string) gomap \<Rightarrow> enc_op list" where
  "addSortedMapKeyValue enc tableName m =
     enc @ [ETable tableName]
       @ concat (map (\<lambda>key.
            [EAddString key, EAddString (case map_index m key of Some x \<Rightarrow> x | None \<Rightarrow> []), EEndRow])
          (sort (map fst (map_range m))))
       @ [EEndTable]"

definition accountData_ops :: "accountData \<Rightarrow> enc_op list" where
  "accountData_ops a =
     addSortedMapKeyValue
       (addSortedMapKeyValue
          [EScalar ''fileCounter'', EAddInt (fileCounter a),
           EScalar ''pictureDefaultUrl'', EAddString (pictureDefaultUrl a),
           EEmptyLine, EComment ''map from url to filename'']
          ''pictureUrlFileMap'' (pictureUrlFileMap a)
        @ [EEmptyLine, EComment ''map from picture-keyword to picture-url''])
       ''pictureKeywordUrlMap'' (pictureKeywordUrlMap a)"

definition writeAccountData :: "env \<Rightarrow> accountData \<Rightarrow> Config \<Rightarrow> sys \<Rightarrow> Report option \<times> sys" where
  "writeAccountData e a cfg s =
     (let dbpath = filepath_Join (accountDataDir cfg) accountDataDBFileName in
      case writeFileTempRename e dbpath (linedb_GetBytes e (accountData_ops a)) s of
        (Some msg, s1) \<Rightarrow> (Some (WrapErr msg (''failed to write account data db file '' @ dbpath)), s1)
      | (None, s1) \<Rightarrow> (None, s1))"

text \<open>\<open>getLJFlatArray\<close>.\<close>

fun flatElements :: "string \<Rightarrow> (string \<times> string) list \<Rightarrow> nat list \<Rightarrow> Report + string list" where
  "flatElements arrayName m [] = Inr []"
| "flatElements arrayName m (i # others) =
     (let key = arrayName @ ''_'' @ fmt_nat (Suc i) in
      case map_of m key of
        None \<Rightarrow> Inl (ReportMsg (''no '' @ key @ '' key in LJ flat response''))
      | Some x \<Rightarrow> (case flatElements arrayName m others of Inl r \<Rightarrow> Inl r | Inr xs \<Rightarrow> Inr (x # xs)))"

definition getLJFlatArray :: "string \<Rightarrow> (string \<times> string) list \<Rightarrow> Report + string list" where
  "getLJFlatArray arrayName m =
     (let key = arrayName @ ''_count'';
          countStr = (case map_of m key of Some x \<Rightarrow> x | None \<Rightarrow> [])
      in if countStr = [] then Inl (ReportMsg (''no '' @ key @ '' key in LJ flat response''))
         else (case ParseInt countStr of
                 None \<Rightarrow>
                   Inl (WrapErr ''invalid syntax''
                     (''value '' @ [CHR 0x27] @ countStr @ [CHR 0x27] @ '' for '' @ key
                        @ '' key in LJ flat response is not an integer''))
               | Some count \<Rightarrow>
                   (if sint count < 0 then
                      Inl (ReportMsg (''value '' @ [CHR 0x27] @ countStr @ [CHR 0x27] @ '' for '' @ key
                        @ '' key in LJ flat response is negative''))
                    else flatElements arrayName m [0..<nat (sint count)])))"

definition convertPictureKeywordToFilename :: "env \<Rightarrow> string \<Rightarrow> string" where
  "convertPictureKeywordToFilename e keyword = blacklist_ReplaceAllString e keyword ''_''"

text \<open>The state of a run of \<open>dumpAccountData\<close>: the account data, the flag \<open>updated\<close> and the
  outside.\<close>

type_synonym picState = "accountData \<times> bool \<times> sys"

definition pictureExtension :: "env \<Rightarrow> http_response \<Rightarrow> string" where
  "pictureExtension e res =
     (if resp_contentType res \<noteq> [] then
        (case mime_ExtensionsByType e (resp_contentType res) of
           Inr (x # _) \<Rightarrow> x
         | _ \<Rightarrow> ''.bin'')
      else ''.bin'')"

text \<open>The file name \<open>fmt.Sprintf("user-picture-%d%s%s%s", accountData.fileCounter, separator,
  fileName, extension)\<close>.\<close>

definition pictureFileName :: "env \<Rightarrow> string \<Rightarrow> http_response \<Rightarrow> int64 \<Rightarrow> string" where
  "pictureFileName e keyword res counter =
     ''user-picture-'' @ fmt_int64 counter
       @ (if keyword \<noteq> [] then ''-'' else [])
       @ (if keyword \<noteq> [] then convertPictureKeywordToFilename e keyword else [])
       @ pictureExtension e res"

text \<open>The part of \<open>fetchAnsStorePictureUrl\<close> that runs once the picture is read.\<close>

definition storePicture ::
  "env \<Rightarrow> Config \<Rightarrow> string \<Rightarrow> string \<Rightarrow> http_response \<Rightarrow> picState \<Rightarrow> outcome \<times> picState" where
  "storePicture e cfg keyword url res st =
     (case st of (a, updated, s) \<Rightarrow>
        (let a1 = a\<lparr>fileCounter := fileCounter a + 1\<rparr>;
             pictureFile = pictureFileName e keyword res (fileCounter a1);
             picturePath = filepath_Join (accountDataDir cfg) pictureFile
         in case writeFileTempRename e picturePath (resp_data res) s of
              (Some msg, s1) \<Rightarrow> (Returned (Some (WrapErr msg [])), a1, updated, s1)
            | (None, s1) \<Rightarrow>
                (case map_assign (pictureUrlFileMap a1) url pictureFile of
                   None \<Rightarrow> (Panicked ''assignment to entry in nil map'', a1, updated, s1)
                 | Some um \<Rightarrow>
                     (let a2 = a1\<lparr>pictureUrlFileMap := um\<rparr> in
                      if keyword = [] then (Returned None, a2\<lparr>pictureDefaultUrl := url\<rparr>, True, s1)
                      else (case map_assign (pictureKeywordUrlMap a2) keyword url of
                              None \<Rightarrow> (Panicked ''assignment to entry in nil map'', a2, updated, s1)
                            | Some km \<Rightarrow> (Returned None, a2\<lparr>pictureKeywordUrlMap := km\<rparr>, True, s1))))))"

text \<open>\<open>accountData.pictureUrlFileMap[url] != ""\<close>: the map gives a file name for the URL,
  and it is not the empty string (which is also what a missing key gives).\<close>

definition knownUrl :: "accountData \<Rightarrow> string \<Rightarrow> bool" where
  "knownUrl a url = (case map_index (pictureUrlFileMap a) url of Some f \<Rightarrow> f \<noteq> [] | None \<Rightarrow> False)"

definition fetchingLine :: "string \<Rightarrow> string \<Rightarrow> string" where
  "fetchingLine keyword url =
     (if keyword = [] then ''Fetching new default user picture '' @ url
      else ''Fetching new '' @ [CHR 0x27] @ keyword @ [CHR 0x27] @ '' user picture '' @ url)"

text \<open>\<open>fetchAnsStorePictureUrl(keywordIndex, url)\<close>; \<open>keywordIndex\<close> is \<open>-1\<close> for the default
  picture.\<close>

definition fetchAnsStorePictureUrl ::
  "env \<Rightarrow> Config \<Rightarrow> string list \<Rightarrow> int \<Rightarrow> string \<Rightarrow> picState \<Rightarrow> outcome \<times> picState" where
  "fetchAnsStorePictureUrl e cfg kws keywordIndex url st =
     (case st of (a, updated, s) \<Rightarrow>
        (if url = [] \<or> knownUrl a url then (Returned None, st)
         else if 0 \<le> keywordIndex \<and> \<not> nat keywordIndex < length kws
         then (Panicked ''runtime error: index out of range'', st)
         else
           (let keyword = (if 0 \<le> keywordIndex then kws ! nat keywordIndex else []) in
            if 0 \<le> keywordIndex \<and> keyword = [] then
              (Returned None, a, updated, log (''WARNING: got empty keyword for user picture '' @ url) s)
            else
              (let s1 = log (fetchingLine keyword url) s
               in case http_Get e (ticks s1) url of
                    Inl msg \<Rightarrow>
                      (Returned None, a, updated, log (''WARNING: failed to download userpic '' @ url) (tick s1))
                  | Inr res \<Rightarrow>
                      (case (case resp_readErr res of None \<Rightarrow> resp_closeErr res | Some x \<Rightarrow> Some x) of
                         Some msg \<Rightarrow>
                           (Returned None, a, updated,
                            log (''WARNING: failed to download userpic '' @ url) (tick s1))
                       | None \<Rightarrow> storePicture e cfg keyword url res (a, updated, tick s1))))))"

fun fetchAll :: "env \<Rightarrow> Config \<Rightarrow> string list \<Rightarrow> (int \<times> string) list \<Rightarrow> picState \<Rightarrow> outcome \<times> picState" where
  "fetchAll e cfg kws [] st = (Returned None, st)"
| "fetchAll e cfg kws ((i, url) # others) st =
     (case fetchAnsStorePictureUrl e cfg kws i url st of
        (Returned None, st1) \<Rightarrow> fetchAll e cfg kws others st1
      | res \<Rightarrow> res)"

definition dumpAccountData :: "env \<Rightarrow> Config \<Rightarrow> accountData \<times> sys \<Rightarrow> outcome \<times> accountData \<times> sys" where
  "dumpAccountData e cfg as =
     (case as of (a, s0) \<Rightarrow>
        (let s = log (''Fetching user info for: '' @ username cfg) s0 in
         case mkdirAll_err e (ticks s) (accountDataDir cfg) of
           Some msg \<Rightarrow>
             (Returned (Some (WrapErr msg (''failed to create directory for account data '' @ accountDataDir cfg))),
              a, tick s)
         | None \<Rightarrow>
             (case callLJFlatMathod e (Suc (ticks s)) ''login'' [''getpickws'', ''1'', ''getpickwurls'', ''1''] of
                Inl r \<Rightarrow> (Returned (Some r), a, tick (tick s))
              | Inr responseMap \<Rightarrow>
                  (case getLJFlatArray ''pickw'' responseMap of
                     Inl r \<Rightarrow> (Returned (Some r), a, tick (tick s))
                   | Inr kws \<Rightarrow>
                       (case getLJFlatArray ''pickwurl'' responseMap of
                          Inl r \<Rightarrow> (Returned (Some r), a, tick (tick s))
                        | Inr urls \<Rightarrow>
                            (if length kws \<noteq> length urls then
                               (Returned (Some (ReportMsg
                                  ''pickw and pickwurl arrays in LJ flat response have different lengths, %!s(bool=true)d != %!d(MISSING)'')),
                                a, tick (tick s))
                             else
                               (case fetchAll e cfg kws
                                       ((- 1, case map_of responseMap ''defaultpicurl'' of Some u \<Rightarrow> u | None \<Rightarrow> [])
                                          # zip (map int [0..<length urls]) urls)
                                       (a, False, tick (tick s)) of
                                  (Returned None, a1, updated, s1) \<Rightarrow>
                                    (if updated then
                                       (case writeAccountData e a1 cfg s1 of
                                          (Some r, s2) \<Rightarrow> (Returned (Some r), a1, s2)
                                        | (None, s2) \<Rightarrow> (Returned None, a1, s2))
                                     else (Returned None, a1, s1))
                                | (out, a1, updated, s1) \<Rightarrow> (out, a1, s1))))))))"

section \<open>Sample inputs\<close>

definition quietEnv :: env where
  "quietEnv =
     \<lparr>client_Get = (\<lambda>n u. Inl ''no network''),
      url_QueryEscape = (\<lambda>x. x),
      unmarshal_meta = (\<lambda>d. Inl ''unexpected EOF''),
      unmarshal_body = (\<lambda>d. Inl ''unexpected EOF''),
      unmarshal_file = (\<lambda>d. Inl ''unexpected EOF''),
      marshal_file = (\<lambda>rs. Inr ''<comments/>''),
      readFile_err = (\<lambda>n p. None),
      writeFile_err = (\<lambda>n p. None),
      rename_err = (\<lambda>n p. None),
      xmlrpc_NewClient = (\<lambda>n u. None),
      call_syncitems = (\<lambda>n ps. Inr []),
      call_getevents = (\<lambda>n ps. Inr []),
      linedb_GetBytes = (\<lambda>ops. concat (map (\<lambda>x. case x of
          EScalar n \<Rightarrow> n @ '' '' | ETable n \<Rightarrow> n @ '' ['' | EEndTable \<Rightarrow> '']''
        | EAddInt i \<Rightarrow> fmt_int64 i @ '' '' | EAddInt64 i \<Rightarrow> fmt_int64 i @ '' ''
        | EAddString x \<Rightarrow> x @ '' '' | EEndRow \<Rightarrow> ''; '' | EEmptyLine \<Rightarrow> [] | EComment c \<Rightarrow> []) ops)),
      linedb_decode = (\<lambda>d. []),
      scan_line = (\<lambda>d. (None, None)),
      close_err = (\<lambda>n p. None),
      unpickle_Dict = (\<lambda>d. Inl ''bad pickle''),
      unpickle_DictString = (\<lambda>d. Inl ''bad pickle''),
      mkdirAll_err = (\<lambda>n p. None),
      callLJFlatMathod = (\<lambda>n m ps. Inr []),
      http_Get = (\<lambda>n u. Inl ''no network''),
      mime_ExtensionsByType = (\<lambda>t. Inl ''no type''),
      blacklist_ReplaceAllString = (\<lambda>k r. k)\<rparr>"

definition sampleJournal :: journalContext where
  "sampleJournal =
     \<lparr>config = \<lparr>server = ''https://lj.example'', username = ''alice'', dumpDir = ''dump'',
                 accountDataDir = ''dump/account.data''\<rparr>,
      name = ''alice'', dir = ''dump/alice'',
      db = \<lparr>lastSync = ''2016-01-01 00:00:00'', userMap = Some [(7, ''bob'')],
             commentMap = Some [(80, \<lparr>posterId = 7, state = ''A''\<rparr>)]\<rparr>,
      shouldWriteDB = False, origDbLastSync = ''2016-01-01 00:00:00'', newEntries = 0, newComments = 0\<rparr>"

definition sampleSys :: sys where
  "sampleSys = \<lparr>ticks = 0, files = Map.empty, stderr = []\<rparr>"

definition metaOf :: "int64 \<Rightarrow> LJCommentMeta" where
  "metaOf i = \<lparr>meta_Id = i, meta_PosterId = 7, meta_State = ''A''\<rparr>"

definition commentOf :: "int64 \<Rightarrow> LJComment" where
  "commentOf i =
     \<lparr>com_Id = i, com_PosterId = 7, com_State = [], com_JItemId = 42, com_ParentId = [],
      com_Subject = ''re'', com_Body = ''text'', com_Date = ''2016-02-03''\<rparr>"

text \<open>A server that answers every request with the same chunk: comments 90 and 105, and
  105 declared as the highest id.\<close>

definition oneChunkEnv :: env where
  "oneChunkEnv =
     quietEnv\<lparr>client_Get := (\<lambda>n u. Inr ''chunk''),
       unmarshal_meta := (\<lambda>d. Inr \<lparr>chunk_MaxId = 105, chunk_Comments = [metaOf 90, metaOf 105],
                                   chunk_UserMaps = [\<lparr>um_Id = 7, um_User = ''bob''\<rparr>]\<rparr>),
       unmarshal_body := (\<lambda>d. Inr \<lparr>body_Comments = [commentOf 90, commentOf 105]\<rparr>),
       unmarshal_file := (\<lambda>d. Inr [])\<rparr>"

text \<open>The scenario of the specification: the first answer holds the comments up to 100 and
  declares 105, the later ones hold those up to 105.\<close>

definition twoChunkEnv :: env where
  "twoChunkEnv =
     quietEnv\<lparr>client_Get := (\<lambda>n u. if n = 0 then Inr ''first'' else Inr ''second''),
       unmarshal_meta := (\<lambda>d. if d = ''first''
          then Inr \<lparr>chunk_MaxId = 105, chunk_Comments = [metaOf 90, metaOf 100], chunk_UserMaps = []\<rparr>
          else Inr \<lparr>chunk_MaxId = 105, chunk_Comments = [metaOf 101, metaOf 105], chunk_UserMaps = []\<rparr>)\<rparr>"

subsection \<open>Sample comment records\<close>



subsection \<open>Sample account data\<close>

definition sampleConfig :: Config where
  "sampleConfig =
     \<lparr>server = ''https://lj.example'', username = ''alice'', dumpDir = ''dump'',
      accountDataDir = ''dump/account.data''\<rparr>"

definition sampleAccount :: accountData where
  "sampleAccount =
     \<lparr>fileCounter = 3, pictureDefaultUrl = ''http://pic/1'',
      pictureUrlFileMap = Some [(''http://pic/1'', ''user-picture-1.png'')],
      pictureKeywordUrlMap = Some []\<rparr>"


definition pictureEnv :: env where
  "pictureEnv =
     quietEnv\<lparr>http_Get := (\<lambda>n u. Inr \<lparr>resp_data = ''PNG'', resp_readErr = None, resp_closeErr = None,
                                     resp_contentType = ''image/png''\<rparr>),
       mime_ExtensionsByType := (\<lambda>t. Inr [''.png''])\<rparr>"

subsection \<open>Sample change feeds\<close>

definition syncItem :: "string \<Rightarrow> string \<Rightarrow> LJSyncItem" where
  "syncItem i t = \<lparr>si_Item = i, si_Action = ''create'', si_Time = t\<rparr>"

definition sampleEvent :: "(string \<times> ljvalue) list" where
  "sampleEvent = [(''subject'', VString ''Hi''), (''itemid'', VInt 1), (''event'', VString ''a < b'')]"

text \<open>A feed of two entries; the first \<open>getevents\<close> call is answered, the later ones fail.\<close>

definition sampleFeed :: "LJSyncItem list" where
  "sampleFeed = [syncItem ''L-1'' ''2016-02-01 10:00:00'', syncItem ''L-2'' ''2016-02-02 10:00:00'']"

definition secondFetchFailsEnv :: env where
  "secondFetchFailsEnv =
     quietEnv\<lparr>call_syncitems := (\<lambda>n ps. Inr sampleFeed),
       call_getevents := (\<lambda>n ps. if n = 1 then Inr [sampleEvent] else Inl ''timeout'')\<rparr>"

text \<open>A feed whose first item id is a single letter.\<close>

definition shortIdEnv :: env where
  "shortIdEnv =
     quietEnv\<lparr>call_syncitems := (\<lambda>n ps. Inr [syncItem ''L'' ''2016-02-01 10:00:00'',
                                            syncItem ''C-5'' ''2016-02-02 10:00:00''])\<rparr>"

subsection \<open>Sample comment feeds\<close>

text \<open>A server with one comment, 105, on the post 42.\<close>

definition oneCommentEnv :: env where
  "oneCommentEnv =
     quietEnv\<lparr>client_Get := (\<lambda>n u. Inr ''chunk''),
       unmarshal_meta := (\<lambda>d. Inr \<lparr>chunk_MaxId = 105, chunk_Comments = [metaOf 105],
                                   chunk_UserMaps = [\<lparr>um_Id = 7, um_User = ''bob''\<rparr>]\<rparr>),
       unmarshal_body := (\<lambda>d. Inr \<lparr>body_Comments = [commentOf 105]\<rparr>)\<rparr>"

text \<open>The first request (the meta pass) is answered, every later one fails.\<close>

definition metaThenFailEnv :: env where
  "metaThenFailEnv = oneChunkEnv\<lparr>client_Get := (\<lambda>n u. if n = 0 then Inr ''chunk'' else Inl ''connection reset'')\<rparr>"

text \<open>A journal that is dumped for the first time: no state file and no file of the Python
  tool.\<close>

definition freshJournal :: journalContext where
  "freshJournal = newJournalContext sampleConfig ''alice''"

text \<open>What the meta pass learns from that server.\<close>

definition learned105 :: metaVars where
  "learned105 = \<lparr>mv_newComments = [(105, \<lparr>posterId = 7, state = ''A''\<rparr>)],
                  mv_newCommentUsers = [(7, ''bob'')], mv_newMaxId = 105\<rparr>"

text \<open>What the meta pass learns from the server of \<open>oneChunkEnv\<close>.\<close>

definition learnedTwo :: metaVars where
  "learnedTwo = \<lparr>mv_newComments = [(90, \<lparr>posterId = 7, state = ''A''\<rparr>), (105, \<lparr>posterId = 7, state = ''A''\<rparr>)],
                  mv_newCommentUsers = [(7, ''bob'')], mv_newMaxId = 105\<rparr>"

section \<open>Properties\<close>

subsection \<open>The merge of a comment into its file\<close>













subsection \<open>The two pagination loops\<close>













lemma metaLoop_scenario: "\<exists>v s. metaLoop twoChunkEnv sampleJournal (startVars 80) sampleSys = Some (Inr (v, 105), s)
   \<and> mv_newMaxId v = 105 \<and> ticks s = 2 \<and> map fst (mv_newComments v) = [90, 100, 101, 105]"
  by (simp add: metaLoop.simps fetchCommentData_def twoChunkEnv_def quietEnv_def startVars_def sampleSys_def
      tick_def absorbChunk_def absorbComment_def absorbUser_def metaOf_def)







subsection \<open>Post synchronization\<close>

lemma writeFileTempRename_ok:
  "writeFileTempRename e p d s = (None, s') \<Longrightarrow> files s' p = Some d"
  by (auto simp: writeFileTempRename_def Let_def tick_def split: option.splits)

lemma writeLJEventDump_ok:
  assumes "writeLJEventDump e jcx c i ev s = (None, s')"
  shows "\<exists>out. serializeMap ev = (None, out) \<and> files s' (eventPath jcx c i) = Some (eventBytes out)"
proof -
  obtain r out where sm: "serializeMap ev = (r, out)" by (cases "serializeMap ev")
  have "r = None" using assms sm by (cases r) (auto simp: writeLJEventDump_def)
  moreover obtain w s1 where wr: "writeFileTempRename e (eventPath jcx c i) (eventBytes out) s = (w, s1)"
    by (cases "writeFileTempRename e (eventPath jcx c i) (eventBytes out) s")
  moreover have "w = None \<and> s1 = s'"
    using assms sm wr \<open>r = None\<close> by (cases w) (auto simp: writeLJEventDump_def)
  ultimately show ?thesis using sm writeFileTempRename_ok [of e _ _ s s'] by auto
qed

lemma fetchEntry_result:
  assumes "fetchEntry e item itemid (jcx, s) = (out, jcx', s')"
  shows "db jcx' = db jcx \<and> shouldWriteDB jcx' = shouldWriteDB jcx \<and> dir jcx' = dir jcx
     \<and> name jcx' = name jcx \<and> config jcx' = config jcx
     \<and> (\<exists>ro. out = Returned ro)
     \<and> (out = Returned None \<longrightarrow>
          (\<exists>event rest bytes.
             call_getevents e (ticks s)
               (withLogin jcx [(''selecttype'', VString ''one''), (''itemid'', VInt64 itemid),
                  (''usejournal'', VString (name jcx)), (''lineendings'', VString ''unix'')]) = Inr (event # rest)
             \<and> serializeMap event = (None, bytes)
             \<and> files s' (eventPath jcx (si_Item item ! 0) itemid) = Some (eventBytes bytes)))"
proof -
  let ?ps = "withLogin jcx [(''selecttype'', VString ''one''), (''itemid'', VInt64 itemid),
                  (''usejournal'', VString (name jcx)), (''lineendings'', VString ''unix'')]"
  let ?s1 = "log (entryLine item) s"
  have t: "ticks ?s1 = ticks s" by (simp add: log_def)
  show ?thesis
  proof (cases "call_getevents e (ticks s) ?ps")
    case (Inl msg)
    then show ?thesis using assms t by (auto simp: fetchEntry_def Let_def)
  next
    case (Inr events)
    show ?thesis
    proof (cases events)
      case Nil
      then show ?thesis using assms t Inr by (auto simp: fetchEntry_def Let_def)
    next
      case (Cons event rest)
      obtain r s2 where w: "writeLJEventDump e jcx (si_Item item ! 0) itemid event (tick ?s1) = (r, s2)"
        by (cases "writeLJEventDump e jcx (si_Item item ! 0) itemid event (tick ?s1)")
      show ?thesis
      proof (cases r)
        case None
        then have res: "out = Returned None" "jcx' = jcx\<lparr>newEntries := Suc (newEntries jcx)\<rparr>" "s' = s2"
          using assms t Inr Cons w by (auto simp: fetchEntry_def Let_def)
        obtain bytes where "serializeMap event = (None, bytes)"
          "files s2 (eventPath jcx (si_Item item ! 0) itemid) = Some (eventBytes bytes)"
          using writeLJEventDump_ok w None by blast
        then show ?thesis using res Inr Cons by simp
      next
        case (Some rep)
        then show ?thesis using assms t Inr Cons w by (auto simp: fetchEntry_def Let_def)
      qed
    qed
  qed
qed

text \<open>An item id of the shape the code expects: a type letter, \<open>-\<close> and an \<open>int64\<close>.\<close>

lemma processItem_skips:
  assumes "2 \<le> length (si_Item item)"
    and "length (si_Item item) < 3 \<or> si_Item item ! 1 \<noteq> CHR ''-'' \<or> ParseInt (drop 2 (si_Item item)) = None"
  shows "processItem e item (jcx, s) = (Returned None, jcx, log (invalidIdLine (si_Item item ! 1)) s)"
  using assms by (auto simp: processItem_def Let_def)

lemma processItem_short:
  assumes "length (si_Item item) < 2"
  shows "processItem e item js =
    (Panicked (''runtime error: index out of range [1] with length '' @ fmt_nat (length (si_Item item))), js)"
  using assms by (auto simp: processItem_def Let_def)

lemma processItem_entry:
  assumes shape: "3 \<le> length (si_Item item)" "si_Item item ! 1 = CHR ''-''" "ParseInt (drop 2 (si_Item item)) = Some itemid"
    and entry: "si_Item item ! 0 = CHR ''L''"
    and run: "processItem e item (jcx, s) = (out, jcx', s')"
  shows "(\<exists>ro. out = Returned ro)
     \<and> (out = Returned None \<longrightarrow>
          lastSync (db jcx') = si_Time item \<and> shouldWriteDB jcx'
          \<and> (\<exists>event rest bytes.
             call_getevents e (ticks s)
               (withLogin jcx [(''selecttype'', VString ''one''), (''itemid'', VInt64 itemid),
                  (''usejournal'', VString (name jcx)), (''lineendings'', VString ''unix'')]) = Inr (event # rest)
             \<and> serializeMap event = (None, bytes)
             \<and> files s' (eventPath jcx CHR ''L'' itemid) = Some (eventBytes bytes)))
     \<and> (out \<noteq> Returned None \<longrightarrow> db jcx' = db jcx \<and> shouldWriteDB jcx' = shouldWriteDB jcx)"
proof -
  obtain o1 j1 s1 where f: "fetchEntry e item itemid (jcx, s) = (o1, j1, s1)"
    by (cases "fetchEntry e item itemid (jcx, s)")
  note fr = fetchEntry_result [OF f]
  show ?thesis
  proof (cases "o1 = Returned None")
    case True
    then have "out = Returned None" "jcx' = j1\<lparr>db := (db j1)\<lparr>lastSync := si_Time item\<rparr>, shouldWriteDB := True\<rparr>" "s' = s1"
      using run shape entry f by (simp_all add: processItem_def Let_def)
    then show ?thesis using fr True entry by simp
  next
    case False
    then obtain r where "o1 = Returned (Some r)" using fr by (cases o1) auto
    then have "out = Returned (Some r)" "jcx' = j1" "s' = s1"
      using run shape entry f by (simp_all add: processItem_def Let_def)
    then show ?thesis using fr by simp
  qed
qed

lemma processItem_other:
  assumes shape: "3 \<le> length (si_Item item)" "si_Item item ! 1 = CHR ''-''" "ParseInt (drop 2 (si_Item item)) = Some itemid"
    and other: "si_Item item ! 0 \<noteq> CHR ''L''"
  shows "processItem e item (jcx, s) =
     (Returned None, jcx\<lparr>db := (db jcx)\<lparr>lastSync := si_Time item\<rparr>, shouldWriteDB := True\<rparr>, s)"
  using assms by (simp add: processItem_def Let_def)

text \<open>A failing item leaves the cursor and the dirty flag as they were.\<close>

lemma processItem_fails:
  assumes "processItem e item (jcx, s) = (out, jcx', s')" and "out \<noteq> Returned None"
  shows "db jcx' = db jcx \<and> shouldWriteDB jcx' = shouldWriteDB jcx"
proof (cases "length (si_Item item) < 3 \<or> si_Item item ! 1 \<noteq> CHR ''-'' \<or> ParseInt (drop 2 (si_Item item)) = None")
  case True
  then show ?thesis
    using assms processItem_skips [of item e jcx s] processItem_short [of item e "(jcx, s)"]
    by (cases "length (si_Item item) < 2") auto
next
  case False
  then obtain itemid where sh: "3 \<le> length (si_Item item)" "si_Item item ! 1 = CHR ''-''"
      "ParseInt (drop 2 (si_Item item)) = Some itemid"
    by auto
  show ?thesis
  proof (cases "si_Item item ! 0 = CHR ''L''")
    case True
    then show ?thesis using processItem_entry [OF sh True assms(1)] assms(2) by simp
  next
    case False
    then show ?thesis using processItem_other [OF sh False, of e jcx s] assms by simp
  qed
qed

lemma processItems_fails:
  assumes "processItems e items js = (out, js')" and "out \<noteq> Returned None"
  shows "\<exists>before bad rest jm. items = before @ bad # rest
     \<and> processItems e before js = (Returned None, jm)
     \<and> processItem e bad jm = (out, js')
     \<and> db (fst js') = db (fst jm) \<and> shouldWriteDB (fst js') = shouldWriteDB (fst jm)"
  using assms
proof (induction items arbitrary: js)
  case Nil
  then show ?case by simp
next
  case (Cons item items)
  obtain o1 j1 where p: "processItem e item js = (o1, j1)" by (cases "processItem e item js")
  show ?case
  proof (cases "o1 = Returned None")
    case True
    then have "processItems e items j1 = (out, js')" using Cons.prems p by simp
    from Cons.IH [OF this Cons.prems(2)] obtain before bad rest jm where
      h: "items = before @ bad # rest" "processItems e before j1 = (Returned None, jm)"
        "processItem e bad jm = (out, js')"
        "db (fst js') = db (fst jm)" "shouldWriteDB (fst js') = shouldWriteDB (fst jm)"
      by blast
    have "item # items = (item # before) @ bad # rest" using h(1) by simp
    moreover have "processItems e (item # before) js = (Returned None, jm)" using p True h(2) by simp
    ultimately show ?thesis using h(3,4,5) by blast
  next
    case False
    then have r: "out = o1" "js' = j1"
      using Cons.prems p by (cases o1; auto split: option.splits)+
    have "db (fst j1) = db (fst js) \<and> shouldWriteDB (fst j1) = shouldWriteDB (fst js)"
      using processItem_fails [of e item "fst js" "snd js" o1 "fst j1" "snd j1"] p False by simp
    moreover have "item # items = [] @ item # items" by simp
    moreover have "processItems e [] js = (Returned None, js)" by simp
    ultimately show ?thesis using p r by blast
  qed
qed

text \<open>
  C8. An item id that is not of the shape \<open>type letter, -, number\<close> is logged and skipped
  with the cursor as it was when it has at least two bytes (\<open>processItem_skips\<close>). With an
  id of fewer than two bytes the argument \<open>item.Item[1]\<close> of the warning is out of range:
  the run panics at this item, and the items after it are not processed.
\<close>

theorem short_item_id_panics:
  "\<not> validItemId ''L''
   \<and> processItems shortIdEnv [syncItem ''L'' ''2016-02-01 10:00:00'', syncItem ''C-5'' ''2016-02-02 10:00:00'']
       (sampleJournal, sampleSys)
     = (Panicked ''runtime error: index out of range [1] with length 1'', sampleJournal, sampleSys)
   \<and> dumpJournalPosts shortIdEnv (sampleJournal, sampleSys)
     = Some (Panicked ''runtime error: index out of range [1] with length 1'',
             sampleJournal, sampleSys\<lparr>ticks := 2, stderr := [''Fetching journal entries for: alice'']\<rparr>)"
  by (simp add: dumpJournalPosts_def syncLoop.simps shortIdEnv_def quietEnv_def sampleSys_def sampleJournal_def
      log_def tick_def syncItem_def processItem_def Let_def digit_char_def validItemId_def entriesLine_def)

lemma processItems_cursor:
  "processItems e items js = (Returned None, js') \<Longrightarrow>
     lastSync (db (fst js')) = cursorAfter (lastSync (db (fst js))) items"
proof (induction items arbitrary: js)
  case Nil
  then show ?case by (simp add: cursorAfter_def)
next
  case (Cons item items)
  obtain o1 j1 s1 where p: "processItem e item (fst js, snd js) = (o1, j1, s1)"
    by (cases "processItem e item (fst js, snd js)")
  have o1: "o1 = Returned None"
    using Cons.prems p by (cases o1; auto split: option.splits)
  then have rest: "processItems e items (j1, s1) = (Returned None, js')" using Cons.prems p by simp
  have step: "lastSync (db j1) = (if validItemId (si_Item item) then si_Time item else lastSync (db (fst js)))"
  proof (cases "validItemId (si_Item item)")
    case False
    then have bad: "length (si_Item item) < 3 \<or> si_Item item ! 1 \<noteq> CHR ''-'' \<or> ParseInt (drop 2 (si_Item item)) = None"
      by (auto simp: validItemId_def)
    have "\<not> length (si_Item item) < 2"
      using processItem_short [of item e "(fst js, snd js)"] p o1 by auto
    then show ?thesis using processItem_skips [of item e "fst js" "snd js"] bad p False by simp
  next
    case True
    then obtain itemid where sh: "3 \<le> length (si_Item item)" "si_Item item ! 1 = CHR ''-''"
        "ParseInt (drop 2 (si_Item item)) = Some itemid"
      by (auto simp: validItemId_def)
    show ?thesis
    proof (cases "si_Item item ! 0 = CHR ''L''")
      case L: True
      then show ?thesis using processItem_entry [OF sh L p] o1 True by simp
    next
      case False
      then show ?thesis using processItem_other [OF sh False, of e "fst js" "snd js"] p True by auto
    qed
  qed
  have "lastSync (db (fst js')) = cursorAfter (lastSync (db j1)) items"
    using Cons.IH [OF rest] by simp
  then show ?case using step by (simp add: cursorAfter_def)
qed

lemma syncLoop_stops:
  assumes "call_syncitems e (ticks s) (withLogin jcx (syncItemsParams jcx)) = Inr items"
    and "items \<noteq> []"
    and "processItems e items (jcx, tick s) = (out, js')" and "out \<noteq> Returned None"
  shows "syncLoop e (jcx, s) = Some (out, js')"
proof (cases out)
  case (Returned ro)
  then obtain r where "ro = Some r" using assms(4) by (cases ro) auto
  then show ?thesis using assms Returned by (subst syncLoop.simps) simp
next
  case (Panicked x)
  then show ?thesis using assms by (subst syncLoop.simps) simp
qed

lemma finishJournal_writes:
  assumes "shouldWriteDB jcx" and "writeJournalDB e jcx s = (None, s1)"
  shows "files (snd (snd (finishJournal e r (jcx, s)))) (filepath_Join (dir jcx) journalDBFileName)
       = Some (linedb_GetBytes e (journalDB_ops (db jcx)))
     \<and> fst (snd (finishJournal e r (jcx, s))) = jcx
     \<and> fst (finishJournal e r (jcx, s)) = Returned r"
proof -
  obtain w s2 where wr: "writeFileTempRename e (filepath_Join (dir jcx) journalDBFileName)
      (linedb_GetBytes e (journalDB_ops (db jcx))) s = (w, s2)"
    by (cases "writeFileTempRename e (filepath_Join (dir jcx) journalDBFileName)
      (linedb_GetBytes e (journalDB_ops (db jcx))) s")
  have "w = None \<and> s2 = s1" using assms(2) wr by (cases w) (auto simp: writeJournalDB_def Let_def)
  then have f: "files s1 (filepath_Join (dir jcx) journalDBFileName)
       = Some (linedb_GetBytes e (journalDB_ops (db jcx)))"
    using wr writeFileTempRename_ok by blast
  show ?thesis
    using assms f by (cases r) (simp_all add: finishJournal_def CombineReports_def log_def)
qed




lemma sampleEvent_bytes:
  "serializeMap sampleEvent =
     (None, ''<event>a &lt; b</event>'' @ [CHR 0x0A] @ ''<itemid>1</itemid>'' @ [CHR 0x0A]
        @ ''<subject>Hi</subject>'' @ [CHR 0x0A])"
  by (simp add: sampleEvent_def isValidXmlTagName_def valueAt_def addEscapeXmlValue_def
      fmt_int64_def fmt_int_def digit_char_def)

lemma ParseInt_1: "ParseInt ''1'' = Some 1" and ParseInt_2: "ParseInt ''2'' = Some 2"
  by (simp_all add: ParseInt_def parseDigits_def isDigit_def)

lemma writeFileTempRename_no_err:
  assumes "writeFile_err e = (\<lambda>n p. None)" and "rename_err e = (\<lambda>n p. None)"
  shows "writeFileTempRename e p d s =
     (None, s\<lparr>ticks := Suc (Suc (ticks s)), files := ((files s)(p @ ''.tmp'' := None))(p \<mapsto> d)\<rparr>)"
  using assms by (simp add: writeFileTempRename_def Let_def tick_def)

lemma secondFetchFails_fields:
  "writeFile_err secondFetchFailsEnv = (\<lambda>n p. None)"
  "rename_err secondFetchFailsEnv = (\<lambda>n p. None)"
  "call_getevents secondFetchFailsEnv n ps = (if n = 1 then Inr [sampleEvent] else Inl ''timeout'')"
  "call_syncitems secondFetchFailsEnv n ps = Inr sampleFeed"
  by (simp_all add: secondFetchFailsEnv_def quietEnv_def)

lemma secondFetchFails_first:
  "processItem secondFetchFailsEnv (syncItem ''L-1'' ''2016-02-01 10:00:00'') (sampleJournal, tick sampleSys)
     = (Returned None,
        sampleJournal\<lparr>newEntries := 1,
          db := (db sampleJournal)\<lparr>lastSync := ''2016-02-01 10:00:00''\<rparr>, shouldWriteDB := True\<rparr>,
        \<lparr>ticks = 4,
         files = [''dump/alice/L-1'' \<mapsto> eventBytes (''<event>a &lt; b</event>'' @ [CHR 0x0A]
            @ ''<itemid>1</itemid>'' @ [CHR 0x0A] @ ''<subject>Hi</subject>'' @ [CHR 0x0A])],
         stderr = [''Fetching journal entry L-1 (create)'']\<rparr>)"
  apply (simp add: processItem_def Let_def syncItem_def ParseInt_1 fetchEntry_def secondFetchFails_fields
      sampleSys_def tick_def log_def writeLJEventDump_def sampleEvent_bytes entryLine_def
      writeFileTempRename_no_err eventPath_def filepath_Join_def fmt_int64_def fmt_int_def digit_char_def
      del: serializeMap.simps)
  apply (simp add: sampleJournal_def)
  done

lemma secondFetchFails_second:
  "processItem secondFetchFailsEnv (syncItem ''L-2'' ''2016-02-02 10:00:00'') (jcx, \<lparr>ticks = 4, files = fs, stderr = ls\<rparr>)
     = (Returned (Some (WrapErr ''timeout'' [])), jcx,
        \<lparr>ticks = 5, files = fs, stderr = ls @ [''Fetching journal entry L-2 (create)'']\<rparr>)"
  by (simp add: processItem_def Let_def syncItem_def ParseInt_2 fetchEntry_def secondFetchFails_fields
      tick_def log_def entryLine_def)

lemma secondFetchFails_page:
  "processItems secondFetchFailsEnv sampleFeed (sampleJournal, tick sampleSys)
     = (Returned (Some (WrapErr ''timeout'' [])),
        sampleJournal\<lparr>newEntries := 1,
          db := (db sampleJournal)\<lparr>lastSync := ''2016-02-01 10:00:00''\<rparr>, shouldWriteDB := True\<rparr>,
        \<lparr>ticks = 5,
         files = [''dump/alice/L-1'' \<mapsto> eventBytes (''<event>a &lt; b</event>'' @ [CHR 0x0A]
            @ ''<itemid>1</itemid>'' @ [CHR 0x0A] @ ''<subject>Hi</subject>'' @ [CHR 0x0A])],
         stderr = [''Fetching journal entry L-1 (create)'', ''Fetching journal entry L-2 (create)'']\<rparr>)"
  by (simp add: sampleFeed_def secondFetchFails_first secondFetchFails_second)

lemma lastsync_param:
  "map_of (withLogin jcx (syncItemsParams jcx)) ''lastsync'' = Some (VString (lastSync (db jcx)))"
  by (simp add: withLogin_def syncItemsParams_def)

text \<open>
  C1. In \<open>dumpJournalPosts\<close> an entry item moves the cursor \<open>db.lastSync\<close> to its time only
  when its entry file has been written by \<open>writeFileTempRename\<close>; an item whose fetch or
  write fails leaves the cursor and the dirty flag as they were and ends the loop over the
  page and the function at once. The cursor is then the time of the last item processed
  before the failing one (with an id of the expected shape), or the cursor the page was
  asked with; \<open>dumpJournal\<close> writes it to the state file when the state is dirty, and the
  next \<open>syncitems\<close> request carries it as \<open>lastsync\<close>.
\<close>

theorem cursor_follows_written_entries:
  "(3 \<le> length (si_Item item) \<and> si_Item item ! 1 = CHR ''-'' \<and> ParseInt (drop 2 (si_Item item)) = Some itemid
      \<and> si_Item item ! 0 = CHR ''L'' \<and> fst (processItem e item (jcx, s)) = Returned None \<longrightarrow>
      lastSync (db (fst (snd (processItem e item (jcx, s))))) = si_Time item
      \<and> shouldWriteDB (fst (snd (processItem e item (jcx, s))))
      \<and> (\<exists>event rest bytes.
             call_getevents e (ticks s)
               (withLogin jcx [(''selecttype'', VString ''one''), (''itemid'', VInt64 itemid),
                  (''usejournal'', VString (name jcx)), (''lineendings'', VString ''unix'')]) = Inr (event # rest)
             \<and> serializeMap event = (None, bytes)
             \<and> files (snd (snd (processItem e item (jcx, s)))) (eventPath jcx CHR ''L'' itemid)
                 = Some (eventBytes bytes)))
   \<and> (fst (processItem e item (jcx, s)) \<noteq> Returned None \<longrightarrow>
        db (fst (snd (processItem e item (jcx, s)))) = db jcx
        \<and> shouldWriteDB (fst (snd (processItem e item (jcx, s)))) = shouldWriteDB jcx)
   \<and> (fst (processItems e items js) \<noteq> Returned None \<longrightarrow>
        (\<exists>before bad rest jm. items = before @ bad # rest
           \<and> processItems e before js = (Returned None, jm)
           \<and> processItem e bad jm = processItems e items js
           \<and> lastSync (db (fst (snd (processItems e items js)))) = cursorAfter (lastSync (db (fst js))) before))
   \<and> (call_syncitems e (ticks s) (withLogin jcx (syncItemsParams jcx)) = Inr items \<and> items \<noteq> []
        \<and> fst (processItems e items (jcx, tick s)) \<noteq> Returned None \<longrightarrow>
        syncLoop e (jcx, s) = Some (processItems e items (jcx, tick s)))
   \<and> map_of (withLogin jcx (syncItemsParams jcx)) ''lastsync'' = Some (VString (lastSync (db jcx)))
   \<and> (shouldWriteDB jcx \<and> fst (writeJournalDB e jcx s) = None \<longrightarrow>
        files (snd (snd (finishJournal e r (jcx, s)))) (filepath_Join (dir jcx) journalDBFileName)
          = Some (linedb_GetBytes e (journalDB_ops (db jcx)))
        \<and> take 2 (journalDB_ops (db jcx)) = [EScalar ''lastSync'', EAddString (lastSync (db jcx))])"
proof (intro conjI impI)
  obtain out jcx' s' where p: "processItem e item (jcx, s) = (out, jcx', s')"
    by (cases "processItem e item (jcx, s)")
  {
    assume a: "3 \<le> length (si_Item item) \<and> si_Item item ! 1 = CHR ''-'' \<and> ParseInt (drop 2 (si_Item item)) = Some itemid
      \<and> si_Item item ! 0 = CHR ''L'' \<and> fst (processItem e item (jcx, s)) = Returned None"
    then have sh: "3 \<le> length (si_Item item)" "si_Item item ! 1 = CHR ''-''"
        "ParseInt (drop 2 (si_Item item)) = Some itemid" and L: "si_Item item ! 0 = CHR ''L''"
      and o: "out = Returned None"
      using p by auto
    note en = processItem_entry [OF sh L p]
    show "lastSync (db (fst (snd (processItem e item (jcx, s))))) = si_Time item"
      using en o p by simp
    show "shouldWriteDB (fst (snd (processItem e item (jcx, s))))"
      using en o p by simp
    show "\<exists>event rest bytes.
             call_getevents e (ticks s)
               (withLogin jcx [(''selecttype'', VString ''one''), (''itemid'', VInt64 itemid),
                  (''usejournal'', VString (name jcx)), (''lineendings'', VString ''unix'')]) = Inr (event # rest)
             \<and> serializeMap event = (None, bytes)
             \<and> files (snd (snd (processItem e item (jcx, s)))) (eventPath jcx CHR ''L'' itemid)
                 = Some (eventBytes bytes)"
      using en o p by simp
  }
  {
    assume "fst (processItem e item (jcx, s)) \<noteq> Returned None"
    then have "out \<noteq> Returned None" using p by simp
    note f = processItem_fails [OF p this]
    show "db (fst (snd (processItem e item (jcx, s)))) = db jcx" using f p by simp
    show "shouldWriteDB (fst (snd (processItem e item (jcx, s)))) = shouldWriteDB jcx" using f p by simp
  }
  {
    assume a: "fst (processItems e items js) \<noteq> Returned None"
    obtain o2 js2 where q: "processItems e items js = (o2, js2)" by (cases "processItems e items js")
    then have "o2 \<noteq> Returned None" using a by simp
    from processItems_fails [OF q this] obtain before bad rest jm where
      h: "items = before @ bad # rest" "processItems e before js = (Returned None, jm)"
        "processItem e bad jm = (o2, js2)" "db (fst js2) = db (fst jm)"
      by blast
    have "lastSync (db (fst jm)) = cursorAfter (lastSync (db (fst js))) before"
      using processItems_cursor [OF h(2)] .
    then have c: "lastSync (db (fst (snd (processItems e items js)))) = cursorAfter (lastSync (db (fst js))) before"
      using q h(4) by simp
    have "items = before @ bad # rest
           \<and> processItems e before js = (Returned None, jm)
           \<and> processItem e bad jm = processItems e items js
           \<and> lastSync (db (fst (snd (processItems e items js)))) = cursorAfter (lastSync (db (fst js))) before"
      using h(1,2,3) q c by simp
    then show "\<exists>before bad rest jm. items = before @ bad # rest
           \<and> processItems e before js = (Returned None, jm)
           \<and> processItem e bad jm = processItems e items js
           \<and> lastSync (db (fst (snd (processItems e items js)))) = cursorAfter (lastSync (db (fst js))) before"
      by (intro exI)
  }
  {
    assume a: "call_syncitems e (ticks s) (withLogin jcx (syncItemsParams jcx)) = Inr items \<and> items \<noteq> []
        \<and> fst (processItems e items (jcx, tick s)) \<noteq> Returned None"
    obtain o3 js3 where q: "processItems e items (jcx, tick s) = (o3, js3)"
      by (cases "processItems e items (jcx, tick s)")
    then have "o3 \<noteq> Returned None" using a by simp
    then show "syncLoop e (jcx, s) = Some (processItems e items (jcx, tick s))"
      using syncLoop_stops [of e s jcx items o3 js3] a q by simp
  }
  show "map_of (withLogin jcx (syncItemsParams jcx)) ''lastsync'' = Some (VString (lastSync (db jcx)))"
    by (rule lastsync_param)
  {
    assume a: "shouldWriteDB jcx \<and> fst (writeJournalDB e jcx s) = None"
    obtain s1 where "writeJournalDB e jcx s = (None, s1)"
      using a by (cases "writeJournalDB e jcx s") auto
    then show "files (snd (snd (finishJournal e r (jcx, s)))) (filepath_Join (dir jcx) journalDBFileName)
          = Some (linedb_GetBytes e (journalDB_ops (db jcx)))"
      using finishJournal_writes [of jcx e s s1 r] a by simp
    show "take 2 (journalDB_ops (db jcx)) = [EScalar ''lastSync'', EAddString (lastSync (db jcx))]"
      by (simp add: journalDB_ops_def)
  }
qed


theorem cursor_follows_written_entries_witness:
  "syncLoop secondFetchFailsEnv (sampleJournal, sampleSys)
     = Some (processItems secondFetchFailsEnv sampleFeed (sampleJournal, tick sampleSys))
   \<and> fst (processItems secondFetchFailsEnv sampleFeed (sampleJournal, tick sampleSys))
       = Returned (Some (WrapErr ''timeout'' []))
   \<and> lastSync (db (fst (snd (processItems secondFetchFailsEnv sampleFeed (sampleJournal, tick sampleSys)))))
       = ''2016-02-01 10:00:00''
   \<and> shouldWriteDB (fst (snd (processItems secondFetchFailsEnv sampleFeed (sampleJournal, tick sampleSys))))
   \<and> files (snd (snd (processItems secondFetchFailsEnv sampleFeed (sampleJournal, tick sampleSys))))
         ''dump/alice/L-1''
       = Some (eventBytes (''<event>a &lt; b</event>'' @ [CHR 0x0A]
            @ ''<itemid>1</itemid>'' @ [CHR 0x0A] @ ''<subject>Hi</subject>'' @ [CHR 0x0A]))
   \<and> files (snd (snd (processItems secondFetchFailsEnv sampleFeed (sampleJournal, tick sampleSys))))
         ''dump/alice/L-2'' = None"
proof -
  have 1: "call_syncitems secondFetchFailsEnv (ticks sampleSys)
        (withLogin sampleJournal (syncItemsParams sampleJournal)) = Inr sampleFeed
      \<and> sampleFeed \<noteq> []
      \<and> fst (processItems secondFetchFailsEnv sampleFeed (sampleJournal, tick sampleSys)) \<noteq> Returned None"
    by (simp add: secondFetchFails_fields secondFetchFails_page) (simp add: sampleFeed_def)
  note th = cursor_follows_written_entries [where e = secondFetchFailsEnv and jcx = sampleJournal
      and s = sampleSys and items = sampleFeed]
  from th have "syncLoop secondFetchFailsEnv (sampleJournal, sampleSys)
     = Some (processItems secondFetchFailsEnv sampleFeed (sampleJournal, tick sampleSys))"
    using 1 by blast
  then show ?thesis by (simp add: secondFetchFails_page)
qed

subsection \<open>The merge of what the meta pass learned\<close>

lemma storeComment_db:
  "storeComment e c r (jcx, s) = (out, jcx', s') \<Longrightarrow>
     jcx' = jcx \<or> jcx' = jcx\<lparr>newComments := Suc (newComments jcx)\<rparr>"
  by (auto simp: storeComment_def Let_def split: prod.splits io.splits sum.splits if_splits option.splits)

lemma storeChunk_db:
  "storeChunk e v cs f (jcx, s) = (out, m, jcx', s') \<Longrightarrow>
     db jcx' = db jcx \<and> shouldWriteDB jcx' = shouldWriteDB jcx"
proof (induction cs arbitrary: f jcx s)
  case Nil
  then show ?case by simp
next
  case (Cons c cs)
  let ?m = "if sint f < sint (com_Id c) then com_Id c else f"
  obtain o1 j1 s1 where st: "storeComment e c (makeRecord jcx v c) (jcx, s) = (o1, j1, s1)"
    by (cases "storeComment e c (makeRecord jcx v c) (jcx, s)")
  have j1: "db j1 = db jcx \<and> shouldWriteDB j1 = shouldWriteDB jcx"
    using storeComment_db [OF st] by auto
  show ?case
  proof (cases "o1 = Returned None")
    case True
    then have "storeChunk e v cs ?m (j1, s1) = (out, m, jcx', s')"
      using Cons.prems st by (simp add: Let_def)
    from Cons.IH [OF this] show ?thesis using j1 by simp
  next
    case False
    then have "jcx' = j1"
      using Cons.prems st by (cases o1; auto simp: Let_def split: option.splits)
    then show ?thesis using j1 by simp
  qed
qed

lemma bodyLoop_db_aux:
  assumes "bodyLoop e v f js = Some y"
  shows "db (fst (snd (snd y))) = db (fst js) \<and> shouldWriteDB (fst (snd (snd y))) = shouldWriteDB (fst js)"
proof (rule bodyLoop.raw_induct
    [where P = "\<lambda>e v f js y. db (fst (snd (snd y))) = db (fst js)
        \<and> shouldWriteDB (fst (snd (snd y))) = shouldWriteDB (fst js)", OF _ assms])
  fix loop :: "env \<Rightarrow> metaVars \<Rightarrow> CommentId \<Rightarrow> journalContext \<times> sys \<Rightarrow> (outcome \<times> CommentId \<times> journalContext \<times> sys) option"
  fix e v f js y
  assume IH: "\<And>e v f js y. loop e v f js = Some y \<Longrightarrow>
      db (fst (snd (snd y))) = db (fst js) \<and> shouldWriteDB (fst (snd (snd y))) = shouldWriteDB (fst js)"
  assume body: "(case fetchCommentData e (fst js) ''body'' f (unmarshal_body e) (snd js) of
        (Inl r, s1) \<Rightarrow> Some (Returned (Some r), f, fst js, s1)
      | (Inr chunk, s1) \<Rightarrow>
          (case storeChunk e v (body_Comments chunk) f (fst js, s1) of
             (Returned None, m, js1) \<Rightarrow>
               (if sint (mv_newMaxId v) \<le> sint m then Some (Returned None, m, js1)
                else loop e v m js1)
           | (Returned (Some a), b) \<Rightarrow> Some (Returned (Some a), b)
           | (Panicked list, b) \<Rightarrow> Some (Panicked list, b))) = Some y"
  obtain res s1 where fe: "fetchCommentData e (fst js) ''body'' f (unmarshal_body e) (snd js) = (res, s1)"
    by (cases "fetchCommentData e (fst js) ''body'' f (unmarshal_body e) (snd js)")
  show "db (fst (snd (snd y))) = db (fst js) \<and> shouldWriteDB (fst (snd (snd y))) = shouldWriteDB (fst js)"
  proof (cases res)
    case (Inl r)
    then show ?thesis using body fe by auto
  next
    case (Inr ch)
    obtain o1 m1 j1 t1 where st: "storeChunk e v (body_Comments ch) f (fst js, s1) = (o1, m1, j1, t1)"
      by (cases "storeChunk e v (body_Comments ch) f (fst js, s1)")
    have j1: "db j1 = db (fst js) \<and> shouldWriteDB j1 = shouldWriteDB (fst js)"
      using storeChunk_db [OF st] .
    show ?thesis
    proof (cases "o1 = Returned None")
      case False
      then have "y = (o1, m1, j1, t1)"
        using body fe Inr st by (cases o1; auto split: option.splits)
      then show ?thesis using j1 by simp
    next
      case True
      show ?thesis
      proof (cases "sint (mv_newMaxId v) \<le> sint m1")
        case le: True
        then have "y = (Returned None, m1, j1, t1)" using body fe Inr st True by simp
        then show ?thesis using j1 by simp
      next
        case False
        then have "loop e v m1 (j1, t1) = Some y" using body fe Inr st True by simp
        from IH [OF this] show ?thesis using j1 by simp
      qed
    qed
  qed
qed

lemma bodyLoop_db:
  assumes "bodyLoop e v f (jcx, s) = Some (out, m, jcx', s')"
  shows "db jcx' = db jcx \<and> shouldWriteDB jcx' = shouldWriteDB jcx"
  using bodyLoop_db_aux [OF assms] by simp

lemma assignAll_nil: "assignAll None kvs = (if kvs = [] then Some None else None)"
  by (cases kvs) (auto simp: map_assign_def)

lemma assignAll_made:
  "\<exists>kvs'. assignAll (Some kvs) new = Some (Some kvs')
     \<and> (\<forall>k. map_of kvs' k = (case map_of (rev new) k of Some x \<Rightarrow> Some x | None \<Rightarrow> map_of kvs k))"
proof (induction new arbitrary: kvs)
  case Nil
  then show ?case by simp
next
  case (Cons p new)
  obtain k x where p: "p = (k, x)" by (cases p)
  obtain kvs' where h: "assignAll (Some (AList.update k x kvs)) new = Some (Some kvs')"
    "\<forall>k'. map_of kvs' k' = (case map_of (rev new) k' of Some y \<Rightarrow> Some y | None \<Rightarrow> map_of (AList.update k x kvs) k')"
    using Cons.IH by blast
  have "assignAll (Some kvs) (p # new) = Some (Some kvs')"
    using p h(1) by (simp add: map_assign_def)
  moreover have "map_of kvs' k' = (case map_of (rev (p # new)) k' of Some y \<Rightarrow> Some y | None \<Rightarrow> map_of kvs k')" for k'
    using h(2) p by (auto simp: update_conv' map_add_def split: option.splits)
  ultimately show ?case by blast
qed

lemma assignAll_index:
  assumes "assignAll m new = Some m'"
  shows "map_index m' k = (case map_of (rev new) k of Some x \<Rightarrow> Some x | None \<Rightarrow> map_index m k)"
proof (cases m)
  case None
  then show ?thesis using assms by (simp add: assignAll_nil split: if_splits)
next
  case (Some kvs)
  obtain kvs' where h: "assignAll (Some kvs) new = Some (Some kvs')"
    "\<forall>k. map_of kvs' k = (case map_of (rev new) k of Some x \<Rightarrow> Some x | None \<Rightarrow> map_of kvs k)"
    using assignAll_made [of kvs new] by blast
  have "m' = Some kvs'" using assms Some h(1) by simp
  moreover have "map_of kvs' k = (case map_of (rev new) k of Some x \<Rightarrow> Some x | None \<Rightarrow> map_of kvs k)"
    using h(2) by simp
  ultimately show ?thesis using Some by (simp add: map_index_def cong: option.case_cong)
qed

lemma mergeMeta_result:
  assumes "mergeMeta v jcx = (Returned ro, jcx')"
  shows "ro = None
     \<and> (\<forall>k. map_index (commentMap (db jcx')) k
            = (case map_of (rev (mv_newComments v)) k of Some x \<Rightarrow> Some x | None \<Rightarrow> map_index (commentMap (db jcx)) k))
     \<and> (\<forall>k. map_index (userMap (db jcx')) k
            = (case map_of (rev (mv_newCommentUsers v)) k of Some x \<Rightarrow> Some x | None \<Rightarrow> map_index (userMap (db jcx)) k))
     \<and> lastSync (db jcx') = lastSync (db jcx)
     \<and> shouldWriteDB jcx' = (shouldWriteDB jcx \<or> mv_newComments v \<noteq> [] \<or> mv_newCommentUsers v \<noteq> [])"
proof (cases "mv_newComments v \<noteq> [] \<or> mv_newCommentUsers v \<noteq> []")
  case False
  then show ?thesis using assms by (auto simp: mergeMeta_def)
next
  case True
  obtain cm where cm: "assignAll (commentMap (db jcx)) (mv_newComments v) = Some cm"
    using assms True by (cases "assignAll (commentMap (db jcx)) (mv_newComments v)") (auto simp: mergeMeta_def)
  obtain um where um: "assignAll (userMap (db jcx)) (mv_newCommentUsers v) = Some um"
    using assms True cm by (cases "assignAll (userMap (db jcx)) (mv_newCommentUsers v)") (auto simp: mergeMeta_def Let_def)
  have "ro = None" "jcx' = jcx\<lparr>db := (db jcx)\<lparr>commentMap := cm, userMap := um\<rparr>, shouldWriteDB := True\<rparr>"
    using assms True cm um by (auto simp: mergeMeta_def Let_def)
  then show ?thesis
    using True assignAll_index [OF cm] assignAll_index [OF um] by simp
qed

subsection \<open>The state read at the start of a run\<close>

lemma oneComment_fields:
  "readFile_err oneCommentEnv = (\<lambda>n p. None)"
  "writeFile_err oneCommentEnv = (\<lambda>n p. None)"
  "rename_err oneCommentEnv = (\<lambda>n p. None)"
  "mkdirAll_err oneCommentEnv = (\<lambda>n p. None)"
  "xmlrpc_NewClient oneCommentEnv = (\<lambda>n u. None)"
  "call_syncitems oneCommentEnv = (\<lambda>n ps. Inr [])"
  "client_Get oneCommentEnv = (\<lambda>n u. Inr ''chunk'')"
  "unmarshal_meta oneCommentEnv = (\<lambda>d. Inr \<lparr>chunk_MaxId = 105, chunk_Comments = [metaOf 105],
                                   chunk_UserMaps = [\<lparr>um_Id = 7, um_User = ''bob''\<rparr>]\<rparr>)"
  "unmarshal_body oneCommentEnv = (\<lambda>d. Inr \<lparr>body_Comments = [commentOf 105]\<rparr>)"
  "marshal_file oneCommentEnv = (\<lambda>rs. Inr ''<comments/>'')"
  by (simp_all add: oneCommentEnv_def quietEnv_def)

lemma freshJournal_fields:
  "dir freshJournal = ''dump/alice''" "name freshJournal = ''alice''"
  "db freshJournal = \<lparr>lastSync = [], userMap = None, commentMap = None\<rparr>"
  "config freshJournal = sampleConfig" "shouldWriteDB freshJournal = False"
  "origDbLastSync freshJournal = []"
  by (simp_all add: freshJournal_def newJournalContext_def sampleConfig_def filepath_Join_def)

lemma ReadFile_missing:
  assumes "readFile_err e = (\<lambda>n p. None)" and "files s p = None"
  shows "ReadFile e p s = (NotExist, tick s)"
  using assms by (simp add: ReadFile_def)

lemma tick_files [simp]: "files (tick s) = files s"
  by (simp add: tick_def)

lemma log_files [simp]: "files (log x s) = files s"
  by (simp add: log_def)

text \<open>Without a state file and without the files of the Python tool, \<open>readJournalDB\<close>
  returns \<open>nil\<close> and leaves both maps as they were: nil in a new journal context.\<close>

lemma readPythonFiles_missing:
  assumes "readFile_err e = (\<lambda>n p. None)"
    and "files s (filepath_Join (dir jcx) ''.last'') = None"
    and "files s (filepath_Join (dir jcx) ''comment.meta'') = None"
    and "files s (filepath_Join (dir jcx) ''user.map'') = None"
  shows "readPythonFiles e (jcx, s) = (None, jcx\<lparr>db := (db jcx)\<lparr>lastSync := []\<rparr>\<rparr>, tick (tick (tick s)))"
proof -
  let ?j = "jcx\<lparr>db := (db jcx)\<lparr>lastSync := []\<rparr>\<rparr>"
  have a: "readPythonLastRunFile e (jcx, s) = (None, ?j, tick s)"
    using assms(1,2) by (simp add: readPythonLastRunFile_def Let_def OpenFile_def ReadFile_missing)
  have b: "readPythonCommentMeta e (?j, tick s) = (None, ?j, tick (tick s))"
    using assms(1,3) by (simp add: readPythonCommentMeta_def Let_def OpenFile_def ReadFile_missing)
  have c: "readPythonUserMap e (?j, tick (tick s)) = (None, ?j, tick (tick (tick s)))"
    using assms(1,4) by (simp add: readPythonUserMap_def Let_def OpenFile_def ReadFile_missing)
  show ?thesis by (simp add: readPythonFiles_def a b c)
qed

lemma readJournalDB_fresh:
  assumes "readFile_err e = (\<lambda>n p. None)"
    and "writeFile_err e = (\<lambda>n p. None)" and "rename_err e = (\<lambda>n p. None)"
    and "files s (filepath_Join (dir jcx) journalDBFileName) = None"
    and "files s (filepath_Join (dir jcx) ''.last'') = None"
    and "files s (filepath_Join (dir jcx) ''comment.meta'') = None"
    and "files s (filepath_Join (dir jcx) ''user.map'') = None"
  shows "\<exists>s'. readJournalDB e (jcx, s)
      = (None, jcx\<lparr>db := (db jcx)\<lparr>lastSync := []\<rparr>, origDbLastSync := []\<rparr>, s')
      \<and> ticks s' = ticks s + 6
      \<and> stderr s' = stderr s @ [convertingLine (filepath_Join (dir jcx) journalDBFileName)]
      \<and> (\<forall>q. q \<noteq> filepath_Join (dir jcx) journalDBFileName
             \<and> q \<noteq> filepath_Join (dir jcx) journalDBFileName @ ''.tmp'' \<longrightarrow> files s' q = files s q)"
proof -
  let ?p = "filepath_Join (dir jcx) journalDBFileName"
  let ?j = "jcx\<lparr>db := (db jcx)\<lparr>lastSync := []\<rparr>\<rparr>"
  let ?s1 = "log (convertingLine ?p) (tick s)"
  have r: "ReadFile e ?p s = (NotExist, tick s)"
    using assms(1,4) by (rule ReadFile_missing)
  have py: "readPythonFiles e (jcx, ?s1) = (None, ?j, tick (tick (tick ?s1)))"
    using assms(1,5,6,7) by (intro readPythonFiles_missing) simp_all
  obtain s3 where w: "writeJournalDB e ?j (tick (tick (tick ?s1))) = (None, s3)"
    and t: "ticks s3 = ticks s + 6" and l: "stderr s3 = stderr ?s1"
    and f: "\<forall>q. q \<noteq> ?p \<and> q \<noteq> ?p @ ''.tmp'' \<longrightarrow> files s3 q = files s q"
    using assms(2,3) by (simp add: writeJournalDB_def Let_def writeFileTempRename_def tick_def log_def)
  have "readJournalDB e (jcx, s) = (None, ?j\<lparr>origDbLastSync := lastSync (db ?j)\<rparr>, s3)"
    by (simp add: readJournalDB_def Let_def r py w)
  then show ?thesis using t l f by (simp add: log_def tick_def)
qed


lemma posts_empty_feed:
  assumes "xmlrpc_NewClient e = (\<lambda>n u. None)" and "call_syncitems e = (\<lambda>n ps. Inr [])"
  shows "dumpJournalPosts e (jcx, s)
     = Some (Returned None, jcx, tick (tick (log (entriesLine jcx) s)))"
  using assms by (simp add: dumpJournalPosts_def Let_def syncLoop.simps)

lemma oneComment_meta:
  assumes "sint f < 105"
  shows "metaLoop oneCommentEnv jcx (startVars f) s = Some (Inr (learned105, 105), tick s)"
  using assms
  by (simp add: metaLoop.simps fetchCommentData_def oneComment_fields startVars_def absorbChunk_def
      absorbComment_def absorbUser_def metaOf_def learned105_def)

lemma oneComment_store:
  assumes "files s (filepath_Join (dir jcx) (''C-'' @ fmt_int64 42)) = None"
  shows "\<exists>s'. storeComment oneCommentEnv (commentOf 105) r (jcx, s)
      = (Returned None, jcx\<lparr>newComments := Suc (newComments jcx)\<rparr>, s')"
  using assms
  by (simp add: storeComment_def Let_def commentOf_def ReadFile_missing oneComment_fields
      mergeComment_def writeFileTempRename_def)

lemma oneComment_body:
  assumes "files s (filepath_Join (dir jcx) (''C-'' @ fmt_int64 42)) = None" and "sint f < 105"
  shows "\<exists>s'. bodyLoop oneCommentEnv learned105 f (jcx, s)
      = Some (Returned None, 105, jcx\<lparr>newComments := Suc (newComments jcx)\<rparr>, s')"
proof -
  have f: "files (tick s) (filepath_Join (dir jcx) (''C-'' @ fmt_int64 42)) = None"
    using assms(1) by simp
  obtain s' where st: "storeComment oneCommentEnv (commentOf 105) (makeRecord jcx learned105 (commentOf 105)) (jcx, tick s)
      = (Returned None, jcx\<lparr>newComments := Suc (newComments jcx)\<rparr>, s')"
    using oneComment_store [OF f] by blast
  have "bodyLoop oneCommentEnv learned105 f (jcx, s)
      = Some (Returned None, 105, jcx\<lparr>newComments := Suc (newComments jcx)\<rparr>, s')"
    apply (subst bodyLoop.simps)
    apply (simp add: fetchCommentData_def oneComment_fields Let_def st)
    using assms(2) apply (simp add: commentOf_def learned105_def)
    done
  then show ?thesis by blast
qed

lemma oneComment_comments:
  assumes "files s (filepath_Join (dir jcx) (''C-'' @ fmt_int64 42)) = None"
    and "commentMap (db jcx) = None"
  shows "\<exists>s'. dumpJournalComments oneCommentEnv (jcx, s)
      = Some (Panicked ''assignment to entry in nil map'', jcx\<lparr>newComments := Suc (newComments jcx)\<rparr>, s')"
proof -
  let ?s0 = "log (commentsLine jcx) s"
  have m: "maxStoredCommentId jcx = - 1"
    using assms(2) by (simp add: maxStoredCommentId_def map_range_def)
  have "files (tick ?s0) (filepath_Join (dir jcx) (''C-'' @ fmt_int64 42)) = None"
    using assms(1) by simp
  then obtain s' where b: "bodyLoop oneCommentEnv learned105 (- 1) (jcx, tick ?s0)
      = Some (Returned None, 105, jcx\<lparr>newComments := Suc (newComments jcx)\<rparr>, s')"
    using oneComment_body [of "tick ?s0" jcx "- 1"] by auto
  have "dumpJournalComments oneCommentEnv (jcx, s)
      = Some (Panicked ''assignment to entry in nil map'', jcx\<lparr>newComments := Suc (newComments jcx)\<rparr>, s')"
    using assms(2)
    apply (simp add: dumpJournalComments_def Let_def m oneComment_meta b)
    apply (simp add: mergeMeta_def learned105_def map_assign_def)
    done
  then show ?thesis by blast
qed


text \<open>With a state file that is not empty both maps are made before the file is read.\<close>

lemma readItem_maps:
  "userMap d \<noteq> None \<Longrightarrow> commentMap d \<noteq> None \<Longrightarrow>
     userMap (fold readItem items d) \<noteq> None \<and> commentMap (fold readItem items d) \<noteq> None"
proof (induction items arbitrary: d)
  case Nil
  then show ?case by simp
next
  case (Cons item items)
  have rows: "userMap (fold userRow rows d) \<noteq> None \<and> commentMap (fold userRow rows d) \<noteq> None"
    if "userMap d \<noteq> None" "commentMap d \<noteq> None" for rows d
    using that by (induction rows arbitrary: d) (auto simp: userRow_def split: prod.splits)
  have crows: "userMap (fold commentMetaRow rows d) \<noteq> None \<and> commentMap (fold commentMetaRow rows d) \<noteq> None"
    if "userMap d \<noteq> None" "commentMap d \<noteq> None" for rows d
    using that by (induction rows arbitrary: d) (auto simp: commentMetaRow_def split: prod.splits)
  have "userMap (readItem item d) \<noteq> None \<and> commentMap (readItem item d) \<noteq> None"
    using Cons.prems rows [of d] crows [of d] by (cases item) (simp_all add: readItem_def)
  then show ?case using Cons.IH [of "readItem item d"] by simp
qed

lemma readJournalDB_existing:
  assumes "ReadFile e (filepath_Join (dir jcx) journalDBFileName) s = (IoOk data, s1)" and "data \<noteq> []"
  shows "fst (readJournalDB e (jcx, s)) = None
     \<and> userMap (db (fst (snd (readJournalDB e (jcx, s))))) \<noteq> None
     \<and> commentMap (db (fst (snd (readJournalDB e (jcx, s))))) \<noteq> None"
  using assms readItem_maps [of "(db jcx)\<lparr>userMap := Some [], commentMap := Some []\<rparr>" "linedb_decode e data"]
  by (simp add: readJournalDB_def Let_def)

text \<open>
  C9. \<open>readJournalDB\<close> makes both maps only when the state file exists and is not empty
  (\<open>readJournalDB_existing\<close>). For a journal that is dumped for the first time (no state
  file, none of the files of the Python tool) it returns \<open>nil\<close> with \<open>jcx.db.userMap\<close> and
  \<open>jcx.db.commentMap\<close> nil, and the merge at the end of \<open>dumpJournalComments\<close> panics as soon
  as the server has one comment.
\<close>

theorem fresh_journal_merge_panics:
  "fst (readJournalDB oneCommentEnv (freshJournal, sampleSys)) = None
   \<and> userMap (db (fst (snd (readJournalDB oneCommentEnv (freshJournal, sampleSys))))) = None
   \<and> commentMap (db (fst (snd (readJournalDB oneCommentEnv (freshJournal, sampleSys))))) = None
   \<and> map_option fst (dumpJournal oneCommentEnv (freshJournal, sampleSys))
       = Some (Panicked ''assignment to entry in nil map'')"
proof -
  have fj: "freshJournal\<lparr>db := (db freshJournal)\<lparr>lastSync := []\<rparr>, origDbLastSync := []\<rparr> = freshJournal"
    by (simp add: freshJournal_def newJournalContext_def)
  obtain s1 where r: "readJournalDB oneCommentEnv (freshJournal, sampleSys) = (None, freshJournal, s1)"
    and f: "\<forall>q. q \<noteq> filepath_Join (dir freshJournal) journalDBFileName
             \<and> q \<noteq> filepath_Join (dir freshJournal) journalDBFileName @ ''.tmp'' \<longrightarrow> files s1 q = files sampleSys q"
    using readJournalDB_fresh [of oneCommentEnv sampleSys freshJournal]
    by (auto simp: oneComment_fields sampleSys_def fj)
  let ?s2 = "tick (tick (log (entriesLine freshJournal) (tick s1)))"
  have p: "dumpJournalPosts oneCommentEnv (freshJournal, tick s1) = Some (Returned None, freshJournal, ?s2)"
    by (simp add: posts_empty_feed oneComment_fields)
  have "files s1 (filepath_Join (dir freshJournal) (''C-'' @ fmt_int64 42)) = None"
    using f by (simp add: freshJournal_fields filepath_Join_def journalDBFileName_def sampleSys_def)
  then have "files ?s2 (filepath_Join (dir freshJournal) (''C-'' @ fmt_int64 42)) = None"
    by simp
  then obtain s3 where c: "dumpJournalComments oneCommentEnv (freshJournal, ?s2)
      = Some (Panicked ''assignment to entry in nil map'', freshJournal\<lparr>newComments := Suc (newComments freshJournal)\<rparr>, s3)"
    using oneComment_comments [of ?s2 freshJournal] by (auto simp: freshJournal_fields)
  have "dumpJournal oneCommentEnv (freshJournal, sampleSys)
      = Some (Panicked ''assignment to entry in nil map'', freshJournal\<lparr>newComments := Suc (newComments freshJournal)\<rparr>, s3)"
    by (simp add: dumpJournal_def r oneComment_fields p c)
  then show ?thesis using r by (simp add: freshJournal_fields)
qed

subsection \<open>Pictures\<close>




lemma fetch_skip:
  assumes "url = [] \<or> knownUrl a url"
  shows "fetchAnsStorePictureUrl e cfg kws i url (a, u, s) = (Returned None, a, u, s)"
  using assms by (simp add: fetchAnsStorePictureUrl_def)


lemma fetch_empty_keyword:
  assumes "url \<noteq> []" "\<not> knownUrl a url" "0 \<le> i" "nat i < length kws" "kws ! nat i = []"
  shows "fetchAnsStorePictureUrl e cfg kws i url (a, u, s)
     = (Returned None, a, u, log (''WARNING: got empty keyword for user picture '' @ url) s)"
  using assms by (simp add: fetchAnsStorePictureUrl_def)

lemma fetch_attempt:
  assumes "url \<noteq> []" "\<not> knownUrl a url"
    and "i < 0 \<and> keyword = [] \<or> 0 \<le> i \<and> nat i < length kws \<and> keyword = kws ! nat i \<and> keyword \<noteq> []"
  shows "fetchAnsStorePictureUrl e cfg kws i url (a, u, s)
     = (case http_Get e (ticks s) url of
          Inl msg \<Rightarrow>
            (Returned None, a, u,
             log (''WARNING: failed to download userpic '' @ url) (tick (log (fetchingLine keyword url) s)))
        | Inr res \<Rightarrow>
            (case (case resp_readErr res of None \<Rightarrow> resp_closeErr res | Some x \<Rightarrow> Some x) of
               Some msg \<Rightarrow>
                 (Returned None, a, u,
                  log (''WARNING: failed to download userpic '' @ url) (tick (log (fetchingLine keyword url) s)))
             | None \<Rightarrow> storePicture e cfg keyword url res (a, u, tick (log (fetchingLine keyword url) s))))"
proof -
  have t: "ticks (log x s) = ticks s" for x by (simp add: log_def)
  from assms(3) show ?thesis
  proof
    assume "i < 0 \<and> keyword = []"
    then have "\<not> 0 \<le> i" "keyword = []" by auto
    then show ?thesis using assms(1,2) unfolding \<open>keyword = []\<close>
      by (simp add: fetchAnsStorePictureUrl_def Let_def t)
  next
    assume "0 \<le> i \<and> nat i < length kws \<and> keyword = kws ! nat i \<and> keyword \<noteq> []"
    then have k: "0 \<le> i" "nat i < length kws" "keyword = kws ! nat i" "kws ! nat i \<noteq> []" by auto
    show ?thesis using assms(1,2) k(1,2,4) unfolding k(3)
      by (simp add: fetchAnsStorePictureUrl_def Let_def t)
  qed
qed







lemma writeFileTempRename_quiet:
  "writeFileTempRename quietEnv p d s =
     (None, s\<lparr>ticks := Suc (Suc (ticks s)), files := ((files s)(p @ ''.tmp'' := None))(p \<mapsto> d)\<rparr>)"
  by (simp add: writeFileTempRename_def quietEnv_def Let_def tick_def)



text \<open>
  C7. When the download of a picture is attempted (the URL is not empty and not known, and
  the picture is the default one or has a non-empty keyword) and \<open>http.Get\<close>, reading the
  body or closing it fails, \<open>fetchAnsStorePictureUrl\<close> logs the warning and returns \<open>nil\<close>;
  the account data (counter, maps, default URL) and the flag \<open>updated\<close> are unchanged, so
  that a later call with this account data attempts the download again.
\<close>

theorem failed_download_is_skipped:
  assumes "url \<noteq> []" and "\<not> knownUrl a url"
    and "i < 0 \<and> keyword = [] \<or> 0 \<le> i \<and> nat i < length kws \<and> keyword = kws ! nat i \<and> keyword \<noteq> []"
    and "case http_Get e (ticks s) url of
           Inl msg \<Rightarrow> True
         | Inr res \<Rightarrow> resp_readErr res \<noteq> None \<or> resp_closeErr res \<noteq> None"
  shows "fetchAnsStorePictureUrl e cfg kws i url (a, u, s)
       = (Returned None, a, u,
          log (''WARNING: failed to download userpic '' @ url) (tick (log (fetchingLine keyword url) s)))
     \<and> (\<forall>e2 u2 s2. fetchAnsStorePictureUrl e2 cfg kws i url (a, u2, s2)
       = (case http_Get e2 (ticks s2) url of
          Inl msg \<Rightarrow>
            (Returned None, a, u2,
             log (''WARNING: failed to download userpic '' @ url) (tick (log (fetchingLine keyword url) s2)))
        | Inr res \<Rightarrow>
            (case (case resp_readErr res of None \<Rightarrow> resp_closeErr res | Some x \<Rightarrow> Some x) of
               Some msg \<Rightarrow>
                 (Returned None, a, u2,
                  log (''WARNING: failed to download userpic '' @ url) (tick (log (fetchingLine keyword url) s2)))
             | None \<Rightarrow> storePicture e2 cfg keyword url res (a, u2, tick (log (fetchingLine keyword url) s2)))))"
proof
  note eq = fetch_attempt [OF assms(1,2,3), of e cfg u s]
  show "fetchAnsStorePictureUrl e cfg kws i url (a, u, s)
       = (Returned None, a, u,
          log (''WARNING: failed to download userpic '' @ url) (tick (log (fetchingLine keyword url) s)))"
  proof (cases "http_Get e (ticks s) url")
    case (Inl msg)
    then show ?thesis using eq by simp
  next
    case (Inr res)
    then have "resp_readErr res \<noteq> None \<or> resp_closeErr res \<noteq> None" using assms(4) by simp
    then obtain msg where "(case resp_readErr res of None \<Rightarrow> resp_closeErr res | Some x \<Rightarrow> Some x) = Some msg"
      by (cases "resp_readErr res") auto
    then show ?thesis using eq Inr by simp
  qed
  show "\<forall>e2 u2 s2. fetchAnsStorePictureUrl e2 cfg kws i url (a, u2, s2)
       = (case http_Get e2 (ticks s2) url of
          Inl msg \<Rightarrow>
            (Returned None, a, u2,
             log (''WARNING: failed to download userpic '' @ url) (tick (log (fetchingLine keyword url) s2)))
        | Inr res \<Rightarrow>
            (case (case resp_readErr res of None \<Rightarrow> resp_closeErr res | Some x \<Rightarrow> Some x) of
               Some msg \<Rightarrow>
                 (Returned None, a, u2,
                  log (''WARNING: failed to download userpic '' @ url) (tick (log (fetchingLine keyword url) s2)))
             | None \<Rightarrow> storePicture e2 cfg keyword url res (a, u2, tick (log (fetchingLine keyword url) s2))))"
    using fetch_attempt [OF assms(1,2,3)] by simp
qed

theorem failed_download_is_skipped_witness:
  "fetchAnsStorePictureUrl quietEnv sampleConfig [''cat''] 0 ''http://pic/2'' (sampleAccount, False, sampleSys)
     = (Returned None, sampleAccount, False,
        log (''WARNING: failed to download userpic http://pic/2'')
          (tick (log (fetchingLine ''cat'' ''http://pic/2'') sampleSys)))"
proof -
  have 1: "''http://pic/2'' \<noteq> []" by simp
  have 2: "\<not> knownUrl sampleAccount ''http://pic/2''"
    by (simp add: knownUrl_def sampleAccount_def map_index_def)
  have 3: "(0::int) < 0 \<and> ''cat'' = [] \<or> (0::int) \<le> 0 \<and> nat 0 < length [''cat''] \<and> ''cat'' = [''cat''] ! nat 0 \<and> ''cat'' \<noteq> []"
    by simp
  have 4: "case http_Get quietEnv (ticks sampleSys) ''http://pic/2'' of
           Inl msg \<Rightarrow> True
         | Inr res \<Rightarrow> resp_readErr res \<noteq> None \<or> resp_closeErr res \<noteq> None"
    by (simp add: quietEnv_def)
  from failed_download_is_skipped [OF 1 2 3 4, of sampleConfig False, THEN conjunct1] show ?thesis by simp
qed

text \<open>
  C10, as amended. A keyword-tagged picture whose keyword is the empty string is skipped:
  \<open>nil\<close> is returned, nothing is downloaded and the account data are unchanged. The
  warning is logged when the URL is not empty and not known; a picture whose URL is empty
  or known is skipped before the keyword is looked at, without a line in the log.
\<close>

theorem empty_keyword_is_skipped:
  assumes "0 \<le> i" and "nat i < length kws" and "kws ! nat i = []"
  shows "fetchAnsStorePictureUrl e cfg kws i url (a, u, s)
       = (Returned None, a, u,
          if url = [] \<or> knownUrl a url then s
          else log (''WARNING: got empty keyword for user picture '' @ url) s)
     \<and> ticks (snd (snd (snd (fetchAnsStorePictureUrl e cfg kws i url (a, u, s))))) = ticks s
     \<and> files (snd (snd (snd (fetchAnsStorePictureUrl e cfg kws i url (a, u, s))))) = files s"
proof (cases "url = [] \<or> knownUrl a url")
  case True
  then show ?thesis using fetch_skip [OF True, of e cfg kws i u s] by simp
next
  case False
  then have g: "url \<noteq> []" "\<not> knownUrl a url" by auto
  show ?thesis using fetch_empty_keyword [OF g assms, of e cfg u s] False by (simp add: log_def)
qed

theorem empty_keyword_is_skipped_witness:
  "fetchAnsStorePictureUrl pictureEnv sampleConfig [[]] 0 ''http://pic/9'' (sampleAccount, False, sampleSys)
       = (Returned None, sampleAccount, False,
          log (''WARNING: got empty keyword for user picture http://pic/9'') sampleSys)"
  using empty_keyword_is_skipped [of 0 "[[]]" pictureEnv sampleConfig "''http://pic/9''" sampleAccount False sampleSys]
  by (simp add: knownUrl_def sampleAccount_def map_index_def)

text \<open>
  C10 as stated fails where the URL is already known: the picture with the empty keyword
  is skipped by the first guard and nothing is logged.
\<close>

theorem empty_keyword_known_url_no_warning:
  "[[]] ! nat 0 = ([] :: string)
   \<and> fetchAnsStorePictureUrl pictureEnv sampleConfig [[]] 0 ''http://pic/1'' (sampleAccount, False, sampleSys)
       = (Returned None, sampleAccount, False, sampleSys)
   \<and> stderr sampleSys = []"
  by (simp add: fetch_skip knownUrl_def sampleAccount_def map_index_def sampleSys_def)

end
